theory Spec2Isabelle
  imports Main "HOL-Library.Word" "HOL-Library.AList" "HOL-Library.Sublist"
begin

section \<open>Python values\<close>

text \<open>
  A Python \<open>str\<close> is a sequence of Unicode code points; \<open>len\<close> counts them and a
  slice cuts between them.  A code point is a natural number, so the emoji of the progress
  events and the result of decoding UTF-8 are ordinary strings of the model.  \<open>lit\<close>
  turns an ASCII literal of the source into such a string.
\<close>

type_synonym codepoint = nat
type_synonym pystr = "codepoint list"
type_synonym byte = "8 word"

definition lit :: "string \<Rightarrow> pystr" where
  "lit s = map of_char s"

text \<open>
  The values that travel through the session state and the JSON request: \<open>None\<close>,
  booleans, integers, strings, lists and dicts.  A dict is an association list in insertion
  order.  Floating-point numbers are not represented.
\<close>

datatype pyval =
    PNone
  | PBool bool
  | PInt int
  | PStr pystr
  | PList "pyval list"
  | PDict "(pystr \<times> pyval) list"

type_synonym pydict = "(pystr \<times> pyval) list"

text \<open>Truth value testing, as \<open>if x:\<close>, \<open>not x\<close>, \<open>x or y\<close> and \<open>bool(x)\<close> do it.\<close>

fun truthy :: "pyval \<Rightarrow> bool" where
  "truthy PNone = False"
| "truthy (PBool b) = b"
| "truthy (PInt i) = (i \<noteq> 0)"
| "truthy (PStr s) = (s \<noteq> [])"
| "truthy (PList xs) = (xs \<noteq> [])"
| "truthy (PDict kvs) = (kvs \<noteq> [])"

text \<open>\<open>d.get(k, default)\<close>, \<open>k in d\<close> and \<open>d[k] = v\<close> on a dict.\<close>

definition dict_get :: "pydict \<Rightarrow> pystr \<Rightarrow> pyval \<Rightarrow> pyval" where
  "dict_get d k dflt = (case map_of d k of None \<Rightarrow> dflt | Some v \<Rightarrow> v)"

definition dict_has :: "pydict \<Rightarrow> pystr \<Rightarrow> bool" where
  "dict_has d k = (map_of d k \<noteq> None)"

definition dict_set :: "pydict \<Rightarrow> pystr \<Rightarrow> pyval \<Rightarrow> pydict" where
  "dict_set d k v = AList.update k v d"

text \<open>The exceptions that the modelled code can raise.\<close>

datatype py_error = TypeError | AttributeError | UnicodeDecodeError | OSError

text \<open>
  Parts of the Python runtime that the source calls and that depend on tables of the Unicode
  database or on the interpreter version are parameters of the model:
  \<^item> \<open>isdecimal\<close>: the code points that \<open>\d\<close> matches in a \<open>str\<close> pattern (category Nd);
  \<^item> \<open>str_of\<close>: the built-in \<open>str()\<close> that an f-string applies to a value that is not
    already a string (the \<open>repr\<close> of a list, the decimal form of an integer);
  \<^item> \<open>exc_text\<close>: the message \<open>str(e)\<close> of an exception.
\<close>

record builtins =
  isdecimal :: "codepoint \<Rightarrow> bool"
  str_of :: "pyval \<Rightarrow> pystr"
  exc_text :: "py_error \<Rightarrow> pystr"

text \<open>An f-string field \<open>{v}\<close>: a string is inserted as it is, anything else through \<open>str()\<close>.\<close>

definition fmt :: "builtins \<Rightarrow> pyval \<Rightarrow> pystr" where
  "fmt B v = (case v of PStr s \<Rightarrow> s | _ \<Rightarrow> str_of B v)"

subsection \<open>Strict UTF-8 decoding\<close>

text \<open>
  \<open>bytes.decode("utf-8")\<close> with the default error handler: it raises
  \<open>UnicodeDecodeError\<close> on a byte sequence that is not well-formed UTF-8 (a stray
  continuation byte, a truncated or overlong sequence, a surrogate, a value above U+10FFFF).
  \<open>utf8_first\<close> reads one code point and tells how many continuation bytes it used.
\<close>

definition cont :: "nat \<Rightarrow> bool" where
  "cont b = (128 \<le> b \<and> b < 192)"

definition utf8_first :: "nat list \<Rightarrow> (codepoint \<times> nat) option" where
  "utf8_first bs =
    (case bs of
       [] \<Rightarrow> None
     | b # r1 \<Rightarrow>
        if b < 128 then Some (b, 0)
        else if 194 \<le> b \<and> b < 224 then
          (case r1 of
             c1 # _ \<Rightarrow> if cont c1 then Some ((b - 192) * 64 + (c1 - 128), 1) else None
           | _ \<Rightarrow> None)
        else if 224 \<le> b \<and> b < 240 then
          (case r1 of
             c1 # c2 # _ \<Rightarrow>
               if cont c1 \<and> cont c2 \<and> (b = 224 \<longrightarrow> 160 \<le> c1) \<and> (b = 237 \<longrightarrow> c1 < 160)
               then Some ((b - 224) * 4096 + (c1 - 128) * 64 + (c2 - 128), 2)
               else None
           | _ \<Rightarrow> None)
        else if 240 \<le> b \<and> b < 245 then
          (case r1 of
             c1 # c2 # c3 # _ \<Rightarrow>
               if cont c1 \<and> cont c2 \<and> cont c3 \<and> (b = 240 \<longrightarrow> 144 \<le> c1)
                  \<and> (b = 244 \<longrightarrow> c1 < 144)
               then Some ((b - 240) * 262144 + (c1 - 128) * 4096 + (c2 - 128) * 64 + (c3 - 128), 3)
               else None
           | _ \<Rightarrow> None)
        else None)"

fun utf8_decode_units :: "nat list \<Rightarrow> pystr option" where
  "utf8_decode_units [] = Some []"
| "utf8_decode_units (b # bs) =
    (case utf8_first (b # bs) of
       None \<Rightarrow> None
     | Some (cp, k) \<Rightarrow> map_option ((#) cp) (utf8_decode_units (drop k bs)))"

definition decode_utf8 :: "byte list \<Rightarrow> pystr option" where
  "decode_utf8 bs = utf8_decode_units (map unat bs)"

section \<open>The command tools (tools/bash\_tool.py)\<close>

definition truncate_str :: pystr where
  "truncate_str = lit ''<truncated>''"

record BashTools =
  allowed_commands :: "pystr list"
  truncate_length :: "int option"
  working_dir :: "pystr option"

text \<open>\<open>BashTools.__init__\<close>: \<open>allowed_commands or []\<close> replaces \<open>None\<close> by the empty list.\<close>

definition BashTools_init :: "pystr list option \<Rightarrow> int option \<Rightarrow> pystr option \<Rightarrow> BashTools" where
  "BashTools_init cmds tlen wd =
    \<lparr>allowed_commands = (case cmds of None \<Rightarrow> [] | Some cs \<Rightarrow> cs),
     truncate_length = tlen,
     working_dir = wd\<rparr>"

text \<open>
  What \<open>asyncio.create_subprocess_exec\<close> followed by \<open>communicate()\<close> delivers: the exit
  status and the two captured byte streams.  Starting the child can itself fail (no such
  executable), which raises \<open>OSError\<close>.  The operating system is a parameter
  \<open>exec command args cwd\<close> of the model.
\<close>

record process =
  returncode :: int
  stdout :: "byte list"
  stderr :: "byte list"

type_synonym subprocess_exec = "pystr \<Rightarrow> pystr list \<Rightarrow> pystr option \<Rightarrow> py_error + process"

text \<open>
  The closure returned by \<open>_create_runtime_cli_tool\<close>: the function \<open>cli_tool\<close> together
  with the variables it captures, \<open>command\<close>, \<open>func_name\<close> and \<open>self\<close>.  Calls of the
  logger write to an external sink and do not influence the value returned; they and the
  generated docstring are left out.
\<close>

record tool =
  func_name :: pystr
  bound_command :: pystr
  bound_self :: BashTools

definition create_runtime_cli_tool :: "BashTools \<Rightarrow> pystr \<Rightarrow> tool" where
  "create_runtime_cli_tool self command =
    \<lparr>func_name = command @ lit ''_cli'', bound_command = command, bound_self = self\<rparr>"

text \<open>The slice \<open>output[:n]\<close>; a negative \<open>n\<close> counts from the end.\<close>

definition slice_to :: "'a list \<Rightarrow> int \<Rightarrow> 'a list" where
  "slice_to xs n = (if 0 \<le> n then take (nat n) xs else take (nat (int (length xs) + n)) xs)"

definition cli_tool :: "builtins \<Rightarrow> subprocess_exec \<Rightarrow> tool \<Rightarrow> pystr list \<Rightarrow> py_error + pystr" where
  "cli_tool B exec t args =
    (case exec (bound_command t) args (working_dir (bound_self t)) of
       Inl e \<Rightarrow> Inl e
     | Inr p \<Rightarrow>
         if returncode p \<noteq> 0 then
           (case decode_utf8 (stderr p) of
              None \<Rightarrow> Inl UnicodeDecodeError
            | Some err_msg \<Rightarrow>
                let err_str = lit ''Command '' @ bound_command t @ lit '' ''
                      @ fmt B (PList (map PStr args))
                      @ lit '' failed with return code '' @ fmt B (PInt (returncode p))
                      @ lit '' and stderr: '' @ err_msg
                in Inr (lit ''Error: '' @ err_str))
         else
           (case decode_utf8 (stdout p) of
              None \<Rightarrow> Inl UnicodeDecodeError
            | Some output \<Rightarrow>
                (case truncate_length (bound_self t) of
                   None \<Rightarrow> Inr output
                 | Some n \<Rightarrow>
                     if n \<noteq> 0 \<and> int (length output) > n
                     then Inr (slice_to output n @ truncate_str)
                     else Inr output)))"

definition get_tools :: "BashTools \<Rightarrow> tool list" where
  "get_tools self = map (create_runtime_cli_tool self) (allowed_commands self)"

section \<open>The review pipeline (agent/agent.py)\<close>

subsection \<open>Result schema\<close>

text \<open>
  The pydantic models \<open>ReviewComment\<close>, \<open>Issue\<close> and \<open>ReviewResult\<close>, as predicates on
  the dict that a validated instance dumps to: every required field is present with its
  declared type, an \<open>Optional\<close> field may be absent or \<open>None\<close>.
\<close>

fun is_str :: "pyval \<Rightarrow> bool" where
  "is_str (PStr _) = True"
| "is_str _ = False"

fun is_int :: "pyval \<Rightarrow> bool" where
  "is_int (PInt _) = True"
| "is_int _ = False"

fun is_bool :: "pyval \<Rightarrow> bool" where
  "is_bool (PBool _) = True"
| "is_bool _ = False"

definition required :: "pydict \<Rightarrow> string \<Rightarrow> (pyval \<Rightarrow> bool) \<Rightarrow> bool" where
  "required d k P = (case map_of d (lit k) of None \<Rightarrow> False | Some v \<Rightarrow> P v)"

definition optional :: "pydict \<Rightarrow> string \<Rightarrow> (pyval \<Rightarrow> bool) \<Rightarrow> bool" where
  "optional d k P = (case map_of d (lit k) of None \<Rightarrow> True | Some PNone \<Rightarrow> True | Some v \<Rightarrow> P v)"

fun is_ReviewComment :: "pyval \<Rightarrow> bool" where
  "is_ReviewComment (PDict d) =
     (required d ''file_path'' is_str \<and> required d ''line_number'' is_int
      \<and> required d ''comment'' is_str \<and> required d ''severity'' is_str
      \<and> required d ''category'' is_str)"
| "is_ReviewComment _ = False"

fun is_Issue :: "pyval \<Rightarrow> bool" where
  "is_Issue (PDict d) =
     (required d ''category'' is_str \<and> required d ''severity'' is_str
      \<and> required d ''description'' is_str \<and> required d ''file_path'' is_str
      \<and> optional d ''line_number'' is_int \<and> optional d ''suggestion'' is_str)"
| "is_Issue _ = False"

fun is_list_of :: "(pyval \<Rightarrow> bool) \<Rightarrow> pyval \<Rightarrow> bool" where
  "is_list_of P (PList xs) = list_all P xs"
| "is_list_of P _ = False"

fun is_ReviewResult :: "pyval \<Rightarrow> bool" where
  "is_ReviewResult (PDict d) =
     (required d ''review_summary'' is_str
      \<and> required d ''comments_added'' (is_list_of is_ReviewComment)
      \<and> required d ''issues_found'' (is_list_of is_Issue)
      \<and> required d ''approval_recommendation'' is_str
      \<and> required d ''success'' is_bool
      \<and> optional d ''error'' is_str)"
| "is_ReviewResult _ = False"

subsection \<open>Events and reasoning workers\<close>

text \<open>\<open>Event(content=types.Content(role=r, parts=[types.Part(text=t)]), author=a)\<close>.\<close>

record msg_content =
  role :: pystr
  part_text :: pystr

record event =
  content :: "msg_content option"
  author :: pystr

definition Event :: "string \<Rightarrow> pystr \<Rightarrow> pystr \<Rightarrow> event" where
  "Event r t a = \<lparr>content = Some \<lparr>role = lit r, part_text = t\<rparr>, author = a\<rparr>"

text \<open>
  An \<open>LlmAgent\<close> is an external, nondeterministic collaborator.  One delegation is modelled
  by what it does in the run at hand: given the session state it yields some events and
  then either raises an exception (the model call or one of its tools fails) or ends, with
  or without a final response, which \<open>run_async\<close> stores under the agent's
  \<open>output_key\<close>.  Every theorem quantifies over all such behaviours.  The arguments of a
  worker are the values that the source interpolates into its instruction and the tools it
  is given.
\<close>

type_synonym worker = "pydict \<Rightarrow> event list \<times> (py_error + pyval option)"

record pr_info =
  owner :: pystr
  repo :: pystr
  pr_number :: pystr

record workers =
  fetch_agent :: "tool list \<Rightarrow> pr_info \<Rightarrow> worker"
  analyze_agent :: "pyval \<Rightarrow> pyval \<Rightarrow> pyval \<Rightarrow> worker"
  comment_agent :: "pyval \<Rightarrow> worker"
  get_structured_output :: "pystr \<Rightarrow> worker"
  post_agent :: "tool list \<Rightarrow> pr_info \<Rightarrow> pyval \<Rightarrow> worker"

text \<open>
  A generator is modelled by the list of the events it yields, each paired with the session
  state as it is when the consumer receives the event, by the state it leaves behind, and by
  the exception that ended it, if any.  The events of a worker that ends normally are
  delivered with the state that holds its output.  Nothing in the source catches an
  exception of a delegation: it ends the stage and, through it, the orchestrator.
\<close>

type_synonym gen = "(event \<times> pydict) list \<times> pydict \<times> py_error option"

definition run_llm_agent :: "worker \<Rightarrow> string \<Rightarrow> pydict \<Rightarrow> gen" where
  "run_llm_agent w output_key st =
    (case w st of
       (evs, Inl e) \<Rightarrow> (map (\<lambda>ev. (ev, st)) evs, st, Some e)
     | (evs, Inr out) \<Rightarrow>
         let st' = (case out of None \<Rightarrow> st | Some v \<Rightarrow> dict_set st (lit output_key) v)
         in (map (\<lambda>ev. (ev, st')) evs, st', None))"

subsection \<open>Parsing the pull-request URL\<close>

text \<open>
  \<open>re.match(r'https://github\.com/([^/]+)/([^/]+)/pull/(\d+)', url)\<close>.  The match is
  anchored at the start of the string only.  A group \<open>[^/]+\<close> is greedy and is followed by
  a literal \<open>/\<close>, so it is the whole run of code points up to the next \<open>/\<close> and must not be
  empty; \<open>\d+\<close> ends the pattern, so it is the longest run of decimal digits, not empty.
\<close>

fun strip_prefix :: "'a list \<Rightarrow> 'a list \<Rightarrow> 'a list option" where
  "strip_prefix [] ys = Some ys"
| "strip_prefix (x # xs) [] = None"
| "strip_prefix (x # xs) (y # ys) = (if x = y then strip_prefix xs ys else None)"

definition not_slash :: "codepoint \<Rightarrow> bool" where
  "not_slash c = (c \<noteq> of_char CHR ''/'')"

definition parse_pr_url :: "builtins \<Rightarrow> pystr \<Rightarrow> pr_info option" where
  "parse_pr_url B url =
    (case strip_prefix (lit ''https://github.com/'') url of
       None \<Rightarrow> None
     | Some r1 \<Rightarrow>
         if takeWhile not_slash r1 = [] then None
         else
           (case strip_prefix (lit ''/'') (dropWhile not_slash r1) of
              None \<Rightarrow> None
            | Some r2 \<Rightarrow>
                if takeWhile not_slash r2 = [] then None
                else
                  (case strip_prefix (lit ''/pull/'') (dropWhile not_slash r2) of
                     None \<Rightarrow> None
                   | Some r3 \<Rightarrow>
                       if takeWhile (isdecimal B) r3 = [] then None
                       else Some \<lparr>owner = takeWhile not_slash r1,
                                  repo = takeWhile not_slash r2,
                                  pr_number = takeWhile (isdecimal B) r3\<rparr>)))"

text \<open>
  The pattern as the specification words it, \<open>https://<host>/<owner>/<repo>/pull/<digits>\<close>:
  any host, and the whole string has this shape.
\<close>

definition spec_pr_url_pattern :: "builtins \<Rightarrow> pystr \<Rightarrow> bool" where
  "spec_pr_url_pattern B url =
    (case strip_prefix (lit ''https://'') url of
       None \<Rightarrow> False
     | Some r0 \<Rightarrow>
         takeWhile not_slash r0 \<noteq> [] \<and>
         (case strip_prefix (lit ''/'') (dropWhile not_slash r0) of
            None \<Rightarrow> False
          | Some r1 \<Rightarrow>
              takeWhile not_slash r1 \<noteq> [] \<and>
              (case strip_prefix (lit ''/'') (dropWhile not_slash r1) of
                 None \<Rightarrow> False
               | Some r2 \<Rightarrow>
                   takeWhile not_slash r2 \<noteq> [] \<and>
                   (case strip_prefix (lit ''/pull/'') (dropWhile not_slash r2) of
                      None \<Rightarrow> False
                    | Some r3 \<Rightarrow> r3 \<noteq> [] \<and> list_all (isdecimal B) r3))))"

subsection \<open>The stages\<close>

text \<open>
  Each stage builds its worker and runs it; the assignment to \<open>ctx.branch\<close> only labels
  the events and is left out.  Both stages that run commands receive the tools of
  \<open>BashTools(allowed_commands=["gh", "curl", "jq"], working_dir=None)\<close>.
\<close>

definition gh_tools :: "tool list" where
  "gh_tools = get_tools (BashTools_init (Some [lit ''gh'', lit ''curl'', lit ''jq'']) None None)"

definition fetch_pr_details :: "workers \<Rightarrow> pr_info \<Rightarrow> pydict \<Rightarrow> gen" where
  "fetch_pr_details W pr st = run_llm_agent (fetch_agent W gh_tools pr) ''pr_details'' st"

definition analyze_code_changes :: "workers \<Rightarrow> pyval \<Rightarrow> pyval \<Rightarrow> pydict \<Rightarrow> gen" where
  "analyze_code_changes W review_criteria severity_threshold st =
    (let pr_details = dict_get st (lit ''pr_details'') (PStr [])
     in run_llm_agent (analyze_agent W pr_details review_criteria severity_threshold)
          ''code_analysis'' st)"

text \<open>\<open>structure_output\<close> of utils/structure\_output.py: the second, schema-bound pass.\<close>

definition structure_output :: "workers \<Rightarrow> string \<Rightarrow> string \<Rightarrow> pydict \<Rightarrow> gen" where
  "structure_output W orig_output_key output_key st =
    run_llm_agent (get_structured_output W (lit orig_output_key)) output_key st"

definition generate_review_comments :: "workers \<Rightarrow> pydict \<Rightarrow> gen" where
  "generate_review_comments W st =
    (let code_analysis = dict_get st (lit ''code_analysis'') (PStr [])
     in case run_llm_agent (comment_agent W code_analysis) ''raw_review_comments'' st of
          (evs1, st1, Some e) \<Rightarrow> (evs1, st1, Some e)
        | (evs1, st1, None) \<Rightarrow>
            if dict_has st1 (lit ''raw_review_comments'')
            then (case structure_output W ''raw_review_comments'' ''review_comments'' st1 of
                    (evs2, st2, err) \<Rightarrow> (evs1 @ evs2, st2, err))
            else (evs1, st1, None))"

definition post_review_comments :: "workers \<Rightarrow> pr_info \<Rightarrow> pydict \<Rightarrow> gen" where
  "post_review_comments W pr st =
    (let review_comments = dict_get st (lit ''review_comments'') (PDict [])
     in run_llm_agent (post_agent W gh_tools pr review_comments) ''post_result'' st)"

definition fallback_result :: pyval where
  "fallback_result =
    PDict [(lit ''review_summary'', PStr (lit ''Code review completed'')),
           (lit ''comments_added'', PList []),
           (lit ''issues_found'', PList []),
           (lit ''approval_recommendation'', PStr (lit ''comment'')),
           (lit ''success'', PBool True),
           (lit ''error'', PNone)]"

definition generate_final_result :: "pystr \<Rightarrow> pydict \<Rightarrow> (event \<times> pydict) list \<times> pydict" where
  "generate_final_result name st =
    (let review_comments = dict_get st (lit ''review_comments'') (PDict []);
         st' = (if truthy review_comments
                then dict_set st (lit ''final_result'') review_comments
                else dict_set st (lit ''final_result'') fallback_result)
     in ([(Event ''system'' (lit ''Final result generated'') name, st')], st'))"

subsection \<open>The orchestrator \<open>_run_async_impl\<close>\<close>

text \<open>
  A run of the orchestrator: the events it yields with the state at each of them, the state
  at its end, and the exception that ended it, if any.
\<close>

record run =
  yielded :: "(event \<times> pydict) list"
  final_state :: pydict
  raised :: "py_error option"

definition halt :: "(event \<times> pydict) list \<Rightarrow> pydict \<Rightarrow> run" where
  "halt evs st = \<lparr>yielded = evs, final_state = st, raised = None\<rparr>"

definition fail :: "py_error \<Rightarrow> pydict \<Rightarrow> run" where
  "fail e st = \<lparr>yielded = [], final_state = st, raised = Some e\<rparr>"

definition after :: "(event \<times> pydict) list \<Rightarrow> run \<Rightarrow> run" where
  "after evs r = r\<lparr>yielded := evs @ yielded r\<rparr>"

text \<open>
  The source is one function body; the model cuts it at the comments \<open>Step 1\<close> to
  \<open>Step 5\<close>, each part ending in the rest of the body.  An exception of a stage ends
  the run where it is raised.  Lines 183 to 197: step 5 and the closing event.
  \<open>result.get\<close> raises \<open>AttributeError\<close> when the final result is not a dict.
\<close>

definition step5_final :: "builtins \<Rightarrow> pystr \<Rightarrow> pydict \<Rightarrow> run" where
  "step5_final B name st =
    (case generate_final_result name st of
       (evs, st1) \<Rightarrow>
         if dict_has st1 (lit ''final_result'') then
           (case dict_get st1 (lit ''final_result'') PNone of
              PDict result \<Rightarrow>
                let success_msg =
                      (if truthy (dict_get result (lit ''success'') PNone)
                       then 9989 # lit '' Code review completed successfully!''
                       else 10060 # lit '' Code review failed.'');
                    summary = dict_get result (lit ''review_summary'')
                                (PStr (lit ''No summary available''))
                in halt (evs @ [(Event ''assistant''
                                   (success_msg @ [10, 10] @ lit ''Summary: '' @ fmt B summary)
                                   name, st1)]) st1
            | _ \<Rightarrow> \<lparr>yielded = evs, final_state = st1, raised = Some AttributeError\<rparr>)
         else halt evs st1)"

definition step4_post :: "builtins \<Rightarrow> workers \<Rightarrow> pystr \<Rightarrow> pr_info \<Rightarrow> pydict \<Rightarrow> run" where
  "step4_post B W name pr st =
    (let post_comments = dict_get st (lit ''post_comments'') (PBool False)
     in if truthy post_comments then
          (case post_review_comments W pr st of
             (evs, st1, err) \<Rightarrow>
               after ((Event ''assistant''
                         (128221 # lit '' Posting review comments to pull request...'') name, st)
                      # evs)
                 (case err of
                    Some e \<Rightarrow> fail e st1
                  | None \<Rightarrow> step5_final B name st1))
        else step5_final B name st)"

definition step3_generate :: "builtins \<Rightarrow> workers \<Rightarrow> pystr \<Rightarrow> pr_info \<Rightarrow> pydict \<Rightarrow> run" where
  "step3_generate B W name pr st =
    (case generate_review_comments W st of
       (evs, st1, err) \<Rightarrow>
         after ((Event ''assistant'' (128172 # lit '' Generating review comments...'') name, st)
                # evs)
           (case err of
              Some e \<Rightarrow> fail e st1
            | None \<Rightarrow>
                if \<not> dict_has st1 (lit ''review_comments'')
                then halt [(Event ''system'' (lit ''Failed to generate review comments.'') name,
                            st1)] st1
                else step4_post B W name pr st1))"

definition step2_analyze ::
  "builtins \<Rightarrow> workers \<Rightarrow> pystr \<Rightarrow> pr_info \<Rightarrow> pyval \<Rightarrow> pyval \<Rightarrow> pydict \<Rightarrow> run" where
  "step2_analyze B W name pr review_criteria severity_threshold st =
    (case analyze_code_changes W review_criteria severity_threshold st of
       (evs, st1, err) \<Rightarrow>
         after ((Event ''assistant'' (128269 # lit '' Analyzing code changes...'') name, st)
                # evs)
           (case err of
              Some e \<Rightarrow> fail e st1
            | None \<Rightarrow>
                if \<not> dict_has st1 (lit ''code_analysis'')
                then halt [(Event ''system'' (lit ''Failed to analyze code changes.'') name, st1)]
                       st1
                else step3_generate B W name pr st1))"

definition step1_fetch ::
  "builtins \<Rightarrow> workers \<Rightarrow> pystr \<Rightarrow> pr_info \<Rightarrow> pyval \<Rightarrow> pyval \<Rightarrow> pydict \<Rightarrow> run" where
  "step1_fetch B W name pr review_criteria severity_threshold st =
    (case fetch_pr_details W pr st of
       (evs, st1, err) \<Rightarrow>
         after ((Event ''assistant'' (128269 # lit '' Fetching pull request details...'') name, st)
                # evs)
           (case err of
              Some e \<Rightarrow> fail e st1
            | None \<Rightarrow>
                if \<not> dict_has st1 (lit ''pr_details'')
                then halt [(Event ''system'' (lit ''Failed to fetch pull request details.'') name,
                            st1)] st1
                else step2_analyze B W name pr review_criteria severity_threshold st1))"

text \<open>
  Lines 75 to 101: the two validation checks.  \<open>re.match\<close> raises \<open>TypeError\<close> when
  the URL is a truthy value that is not a string.
\<close>

definition no_url_event :: "pystr \<Rightarrow> event" where
  "no_url_event name =
    Event ''system''
      (lit (''No pull_request_url found in session state. ''
            @ ''Please provide a 'pull_request_url' in the session state.''))
      name"

definition invalid_url_event :: "pystr \<Rightarrow> event" where
  "invalid_url_event name =
    Event ''system''
      (lit (''Invalid pull request URL format. ''
            @ ''Expected format: https://github.com/owner/repo/pull/123''))
      name"

definition run_async_impl :: "builtins \<Rightarrow> workers \<Rightarrow> pystr \<Rightarrow> pydict \<Rightarrow> run" where
  "run_async_impl B W name st =
    (if \<not> truthy (dict_get st (lit ''pull_request_url'') PNone)
     then halt [(no_url_event name, st)] st
     else
       let pull_request_url = dict_get st (lit ''pull_request_url'') PNone;
           review_criteria = dict_get st (lit ''review_criteria'') (PDict []);
           severity_threshold = dict_get st (lit ''severity_threshold'') (PStr (lit ''low''))
       in case pull_request_url of
            PStr url \<Rightarrow>
              (case parse_pr_url B url of
                 None \<Rightarrow> halt [(invalid_url_event name, st)] st
               | Some pr \<Rightarrow> step1_fetch B W name pr review_criteria severity_threshold st)
          | _ \<Rightarrow> fail TypeError st)"

text \<open>
  The five notices with which the orchestrator ends a run before FINALIZING: the two of
  the validation checks (lines 77 and 94) and the three of the checks that follow the
  stages (lines 116, 138 and 160).
\<close>

definition failure_notices :: "pystr \<Rightarrow> event list" where
  "failure_notices name =
    [no_url_event name,
     invalid_url_event name,
     Event ''system'' (lit ''Failed to fetch pull request details.'') name,
     Event ''system'' (lit ''Failed to analyze code changes.'') name,
     Event ''system'' (lit ''Failed to generate review comments.'') name]"

section \<open>The front end (agent/main.py)\<close>

definition default_criteria :: pydict where
  "default_criteria =
    [(lit ''code_quality'', PBool True),
     (lit ''security'', PBool True),
     (lit ''performance'', PBool True),
     (lit ''style'', PBool True),
     (lit ''documentation'', PBool True)]"

text \<open>\<open>criteria.items()\<close> raises \<open>AttributeError\<close> on a truthy value that is not a dict.\<close>

definition validate_review_criteria :: "pyval \<Rightarrow> py_error + pyval" where
  "validate_review_criteria criteria =
    (if \<not> truthy criteria then Inr (PDict default_criteria)
     else case criteria of
            PDict items \<Rightarrow>
              Inr (PDict (fold (\<lambda>(key, val) d.
                                  if dict_has d key then dict_set d key (PBool (truthy val))
                                  else d)
                            items default_criteria))
          | _ \<Rightarrow> Inl AttributeError)"

text \<open>
  What normalisation is expected to store for a known key: the truth value of the caller's
  entry, and \<open>True\<close> when the caller has no entry for the key.
\<close>

definition normalized_flag :: "pydict \<Rightarrow> string \<Rightarrow> pyval" where
  "normalized_flag items k =
    PBool (case map_of items (lit k) of None \<Rightarrow> True | Some v \<Rightarrow> truthy v)"

definition valid_thresholds :: "pyval list" where
  "valid_thresholds =
    [PStr (lit ''low''), PStr (lit ''medium''), PStr (lit ''high''), PStr (lit ''critical'')]"

definition validate_severity_threshold :: "pyval \<Rightarrow> pyval" where
  "validate_severity_threshold threshold =
    (if threshold \<notin> set valid_thresholds then PStr (lit ''low'') else threshold)"

text \<open>
  The session service of the runner declares
  \<open>get_session(self, *, app_name, user_id, session_id, config=None)\<close>: every parameter
  is keyword-only, and the source itself addresses a session by keywords where it creates it
  and where it runs it.  A call is modelled by the number of positional arguments and the
  names of the keyword arguments it passes: with a positional argument, or without one of the
  three required keywords, the call raises \<open>TypeError\<close> before anything is looked up.
\<close>

definition get_session :: "nat \<Rightarrow> string list \<Rightarrow> pydict \<Rightarrow> py_error + pydict option" where
  "get_session positional keywords stored =
    (if positional \<noteq> 0 \<or> \<not> set [''app_name'', ''user_id'', ''session_id''] \<subseteq> set keywords
     then Inl TypeError
     else Inr (Some stored))"

text \<open>
  \<open>run_code_review_agent\<close>.  The runner yields the events of the agent one by one; at
  each event that carries content the loop body calls \<open>get_session(session.id)\<close>, one
  positional argument and no keyword, and would keep the \<open>final_result\<close> of the
  session.  An exception in the loop body leaves the function at that event, before the agent
  is resumed; an exception of the agent leaves it after the events yielded before.
\<close>

fun watch_events :: "(event \<times> pydict) list \<Rightarrow> pyval \<Rightarrow> py_error + pyval" where
  "watch_events [] final_result = Inr final_result"
| "watch_events ((e, s) # rest) final_result =
     (if content e \<noteq> None then
        (case get_session 1 [] s of
           Inl err \<Rightarrow> Inl err
         | Inr session_data \<Rightarrow>
             watch_events rest
               (case session_data of
                  None \<Rightarrow> final_result
                | Some state \<Rightarrow>
                    if dict_has state (lit ''final_result'')
                    then dict_get state (lit ''final_result'') PNone
                    else final_result))
      else watch_events rest final_result)"

definition no_result :: pyval where
  "no_result =
    PDict [(lit ''success'', PBool False),
           (lit ''error'', PStr (lit ''No result generated'')),
           (lit ''review_summary'', PStr (lit ''Failed to complete review'')),
           (lit ''comments_added'', PList []),
           (lit ''issues_found'', PList []),
           (lit ''approval_recommendation'', PStr (lit ''comment''))]"

definition run_code_review_agent :: "builtins \<Rightarrow> workers \<Rightarrow> pydict \<Rightarrow> py_error + pyval" where
  "run_code_review_agent B W session_state =
    (let r = run_async_impl B W (lit ''code_review_agent'') session_state
     in case watch_events (yielded r) PNone of
          Inl e \<Rightarrow> Inl e
        | Inr final_result \<Rightarrow>
            (case raised r of
               Some e \<Rightarrow> Inl e
             | None \<Rightarrow>
                 if \<not> truthy final_result then
                   (case get_session 1 [] (final_state r) of
                      Inl e \<Rightarrow> Inl e
                    | Inr session_data \<Rightarrow>
                        let final_result' =
                              (case session_data of
                                 None \<Rightarrow> final_result
                               | Some state \<Rightarrow>
                                   if dict_has state (lit ''final_result'')
                                   then dict_get state (lit ''final_result'') PNone
                                   else final_result)
                        in Inr (if truthy final_result' then final_result' else no_result))
                 else Inr final_result))"

text \<open>
  \<open>agent_endpoint\<close>, the handler of \<open>POST /agent\<close>, from the parsed JSON body to the
  status and the body of the reply.  \<open>contains\<close> is the test \<open>key in data\<close>, which
  raises \<open>TypeError\<close> on a number; subscripting a list or a string with a string key
  raises \<open>TypeError\<close> too.  Every exception is caught and becomes the reply 500.
\<close>

definition contains :: "pyval \<Rightarrow> pystr \<Rightarrow> py_error + bool" where
  "contains data k =
    (case data of
       PDict d \<Rightarrow> Inr (dict_has d k)
     | PList xs \<Rightarrow> Inr (PStr k \<in> set xs)
     | PStr s \<Rightarrow> Inr (sublist k s)
     | _ \<Rightarrow> Inl TypeError)"

definition error_reply :: "string \<Rightarrow> pyval" where
  "error_reply msg = PDict [(lit ''success'', PBool False), (lit ''error'', PStr (lit msg))]"

definition request_session_state :: "pydict \<Rightarrow> py_error + pydict" where
  "request_session_state d =
    (let pull_request_url = dict_get d (lit ''pull_request_url'') PNone
     in case validate_review_criteria (dict_get d (lit ''review_criteria'') (PDict [])) of
          Inl e \<Rightarrow> Inl e
        | Inr review_criteria \<Rightarrow>
            let severity_threshold =
                  validate_severity_threshold
                    (dict_get d (lit ''severity_threshold'') (PStr (lit ''low'')));
                post_comments = dict_get d (lit ''post_comments'') (PBool False)
            in Inr [(lit ''pull_request_url'', pull_request_url),
                    (lit ''review_criteria'', review_criteria),
                    (lit ''severity_threshold'', severity_threshold),
                    (lit ''post_comments'', post_comments)])"

definition agent_endpoint_try :: "builtins \<Rightarrow> workers \<Rightarrow> pyval \<Rightarrow> py_error + nat \<times> pyval" where
  "agent_endpoint_try B W data =
    (if \<not> truthy data then Inr (400, error_reply ''pull_request_url is required'')
     else case contains data (lit ''pull_request_url'') of
            Inl e \<Rightarrow> Inl e
          | Inr False \<Rightarrow> Inr (400, error_reply ''pull_request_url is required'')
          | Inr True \<Rightarrow>
              (case data of
                 PDict d \<Rightarrow>
                   (case request_session_state d of
                      Inl e \<Rightarrow> Inl e
                    | Inr session_state \<Rightarrow>
                        (case run_code_review_agent B W session_state of
                           Inl e \<Rightarrow> Inl e
                         | Inr result \<Rightarrow> Inr (200, result)))
               | _ \<Rightarrow> Inl TypeError))"

definition agent_endpoint :: "builtins \<Rightarrow> workers \<Rightarrow> pyval \<Rightarrow> nat \<times> pyval" where
  "agent_endpoint B W data =
    (case agent_endpoint_try B W data of
       Inr reply \<Rightarrow> reply
     | Inl e \<Rightarrow> (500, PDict [(lit ''success'', PBool False), (lit ''error'', PStr (exc_text B e))]))"

section \<open>Concrete inputs\<close>

text \<open>
  Instances of the parameters for the statements that are evaluated on a concrete input:
  a runtime whose \<open>\d\<close> is the ASCII block of the decimal digits, and whose \<open>str()\<close>
  and exception messages are empty (no statement below depends on them).
\<close>

definition ascii_builtins :: builtins where
  "ascii_builtins =
    \<lparr>isdecimal = (\<lambda>c. 48 \<le> c \<and> c \<le> 57), str_of = (\<lambda>_. []), exc_text = (\<lambda>_. [])\<rparr>"

text \<open>A tool configuration with the single command \<open>gh\<close> and a given truncation length.\<close>

definition gh_tool_set :: "int option \<Rightarrow> BashTools" where
  "gh_tool_set n = BashTools_init (Some [lit ''gh'']) n None"

text \<open>A child that prints \<open>abc\<close> and exits with status 0.\<close>

definition exec_prints_abc :: subprocess_exec where
  "exec_prints_abc command args cwd = Inr \<lparr>returncode = 0, stdout = [97, 98, 99], stderr = []\<rparr>"

text \<open>A child that writes the single byte 0xFF to its standard error and exits with status 1.\<close>

definition exec_fails_binary :: subprocess_exec where
  "exec_fails_binary command args cwd = Inr \<lparr>returncode = 1, stdout = [], stderr = [255]\<rparr>"

text \<open>
  Two operating systems that agree on \<open>curl\<close>: the first runs every command, the
  second has no other executable.
\<close>

definition exec_a :: subprocess_exec where
  "exec_a command args cwd = Inr \<lparr>returncode = 0, stdout = [111, 107], stderr = []\<rparr>"

definition exec_only_curl :: subprocess_exec where
  "exec_only_curl command args cwd =
    (if command = lit ''curl''
     then Inr \<lparr>returncode = 0, stdout = [111, 107], stderr = []\<rparr>
     else Inl OSError)"

text \<open>Workers that yield no event and produce no output.\<close>

definition idle :: worker where
  "idle st = ([], Inr None)"

definition idle_workers :: workers where
  "idle_workers =
    \<lparr>fetch_agent = (\<lambda>tools pr. idle),
     analyze_agent = (\<lambda>pr_details review_criteria severity_threshold. idle),
     comment_agent = (\<lambda>code_analysis. idle),
     get_structured_output = (\<lambda>key. idle),
     post_agent = (\<lambda>tools pr review_comments. idle)\<rparr>"

text \<open>Session states that hold nothing but a pull-request URL.\<close>

definition url_state :: "string \<Rightarrow> pydict" where
  "url_state url = [(lit ''pull_request_url'', PStr (lit url))]"

text \<open>A validated review result, and a state as it is when step 4 begins.\<close>

definition sample_review :: pyval where
  "sample_review =
    PDict [(lit ''review_summary'', PStr (lit ''Looks good'')),
           (lit ''comments_added'', PList []),
           (lit ''issues_found'', PList []),
           (lit ''approval_recommendation'', PStr (lit ''approve'')),
           (lit ''success'', PBool True)]"

definition reviewed_state :: "bool \<Rightarrow> pydict" where
  "reviewed_state post =
    [(lit ''pull_request_url'', PStr (lit ''https://github.com/acme/widgets/pull/42'')),
     (lit ''post_comments'', PBool post),
     (lit ''review_comments'', sample_review)]"

text \<open>
  A session state as the request handler builds it, and workers of a run in which every
  stage up to STRUCTURING delivers its output; the posting worker delivers nothing in the
  first set and raises in the second.
\<close>

definition request_state :: "bool \<Rightarrow> pydict" where
  "request_state post =
    [(lit ''pull_request_url'', PStr (lit ''https://github.com/acme/widgets/pull/42'')),
     (lit ''review_criteria'', PDict default_criteria),
     (lit ''severity_threshold'', PStr (lit ''low'')),
     (lit ''post_comments'', PBool post)]"

definition reviewing_workers :: workers where
  "reviewing_workers =
    \<lparr>fetch_agent = (\<lambda>tools pr st. ([], Inr (Some (PStr (lit ''details''))))),
     analyze_agent =
       (\<lambda>pr_details review_criteria severity_threshold st.
          ([], Inr (Some (PStr (lit ''analysis''))))),
     comment_agent = (\<lambda>code_analysis st. ([], Inr (Some (PStr (lit ''draft''))))),
     get_structured_output = (\<lambda>key st. ([], Inr (Some sample_review))),
     post_agent = (\<lambda>tools pr review_comments. idle)\<rparr>"

definition failing_post :: worker where
  "failing_post st = ([], Inl OSError)"

definition failing_post_workers :: workers where
  "failing_post_workers = reviewing_workers\<lparr>post_agent := (\<lambda>tools pr review_comments. failing_post)\<rparr>"


section \<open>Basic facts\<close>

lemma lit_eq_iff [simp]: "lit s = lit t \<longleftrightarrow> s = t"
  by (simp add: lit_def inj_map_eq_map[OF inj_of_char])

lemma lit_Nil [simp]: "lit [] = []"
  by (simp add: lit_def)

lemma lit_eq_Nil [simp]: "lit s = [] \<longleftrightarrow> s = []"
  by (simp add: lit_def)

lemma length_lit [simp]: "length (lit s) = length s"
  by (simp add: lit_def)

lemma map_of_dict_set [simp]:
  "map_of (dict_set d k v) k' = (if k' = k then Some v else map_of d k')"
  by (simp add: dict_set_def update_conv')

lemma dict_has_dict_set [simp]: "dict_has (dict_set d k v) k' \<longleftrightarrow> k' = k \<or> dict_has d k'"
  by (simp add: dict_has_def)

lemma dict_get_dict_set [simp]:
  "dict_get (dict_set d k v) k' dflt = (if k' = k then v else dict_get d k' dflt)"
  by (simp add: dict_get_def)

lemma decode_abc: "decode_utf8 [97, 98, 99] = Some (lit ''abc'')"
  by (simp add: decode_utf8_def utf8_first_def lit_def)

lemma decode_ff: "decode_utf8 [255] = None"
  by (simp add: decode_utf8_def utf8_first_def)

section \<open>The command tools: results\<close>

text \<open>
  When the child exits with a non-zero status and its standard error is well-formed UTF-8,
  the tool returns the error text as a value.
\<close>

lemma cli_tool_nonzero_exit:
  assumes "exec (bound_command t) args (working_dir (bound_self t)) = Inr p"
    and "returncode p \<noteq> 0"
    and "decode_utf8 (stderr p) = Some err_msg"
  shows "cli_tool B exec t args =
          Inr (lit ''Error: Command '' @ bound_command t @ lit '' '' @ fmt B (PList (map PStr args))
               @ lit '' failed with return code '' @ fmt B (PInt (returncode p))
               @ lit '' and stderr: '' @ err_msg)"
  using assms by (simp add: cli_tool_def lit_def)

text \<open>
  Claim C3 says that an invocation whose child exits with a non-zero status returns the
  error string and never raises.  The source decodes the captured standard error with the
  strict UTF-8 codec before it builds the string (line 44), so a child that writes a byte
  sequence that is not UTF-8 makes the tool raise \<open>UnicodeDecodeError\<close> instead of
  returning: here the child of \<open>gh\<close> writes the byte 0xFF and exits with status 1.
\<close>

theorem cli_tool_nonzero_exit_raises:
  "cli_tool ascii_builtins exec_fails_binary
     (create_runtime_cli_tool (gh_tool_set None) (lit ''gh'')) [] = Inl UnicodeDecodeError"
  by (simp add: cli_tool_def create_runtime_cli_tool_def gh_tool_set_def BashTools_init_def
      exec_fails_binary_def decode_ff)

text \<open>
  Claim C5, as amended: for a successful invocation whose standard output decodes to the
  text \<open>output\<close>: with no \<open>truncate_length\<close>, or with \<open>truncate_length = 0\<close>, the output
  is returned unmodified; with a positive \<open>truncate_length = n\<close>, an output longer than
  \<open>n\<close> code points is returned as its first \<open>n\<close> code points followed by
  \<open><truncated>\<close>, and an output of at most \<open>n\<close> code points is returned unmodified.
\<close>

theorem cli_tool_truncation:
  assumes "exec (bound_command t) args (working_dir (bound_self t)) = Inr p"
    and "returncode p = 0"
    and "decode_utf8 (stdout p) = Some output"
  shows "(truncate_length (bound_self t) = None \<or> truncate_length (bound_self t) = Some 0 \<longrightarrow>
            cli_tool B exec t args = Inr output)
       \<and> (truncate_length (bound_self t) = Some n \<and> 0 < n \<and> n < int (length output) \<longrightarrow>
            cli_tool B exec t args = Inr (take (nat n) output @ lit ''<truncated>''))
       \<and> (truncate_length (bound_self t) = Some n \<and> 0 < n \<and> int (length output) \<le> n \<longrightarrow>
            cli_tool B exec t args = Inr output)"
  using assms by (auto simp: cli_tool_def slice_to_def truncate_str_def)

theorem cli_tool_truncation_witness:
  "cli_tool ascii_builtins exec_prints_abc
     (create_runtime_cli_tool (gh_tool_set (Some 2)) (lit ''gh'')) [] = Inr (lit ''ab<truncated>'')
   \<and> cli_tool ascii_builtins exec_prints_abc
     (create_runtime_cli_tool (gh_tool_set (Some 3)) (lit ''gh'')) [] = Inr (lit ''abc'')
   \<and> cli_tool ascii_builtins exec_prints_abc
     (create_runtime_cli_tool (gh_tool_set None) (lit ''gh'')) [] = Inr (lit ''abc'')"
proof -
  let ?p = "\<lparr>returncode = 0, stdout = [97, 98, 99], stderr = []\<rparr> :: process"
  have e: "exec_prints_abc (bound_command t) [] (working_dir (bound_self t)) = Inr ?p" for t
    by (simp add: exec_prints_abc_def)
  have r: "returncode ?p = 0" by simp
  have d: "decode_utf8 (stdout ?p) = Some (lit ''abc'')" by (simp add: decode_abc)
  have tk: "take 2 (lit ''abc'') @ lit ''<truncated>'' = lit ''ab<truncated>''"
    by (simp add: lit_def)
  have tl: "truncate_length (bound_self (create_runtime_cli_tool (gh_tool_set k) c)) = k" for k c
    by (simp add: create_runtime_cli_tool_def gh_tool_set_def BashTools_init_def)
  from cli_tool_truncation [where exec = exec_prints_abc and args = "[]" and B = ascii_builtins
      and t = "create_runtime_cli_tool (gh_tool_set (Some 2)) (lit ''gh'')" and n = 2, OF e r d]
  have 1: "cli_tool ascii_builtins exec_prints_abc
     (create_runtime_cli_tool (gh_tool_set (Some 2)) (lit ''gh'')) [] = Inr (lit ''ab<truncated>'')"
    by (simp add: tl tk)
  from cli_tool_truncation [where exec = exec_prints_abc and args = "[]" and B = ascii_builtins
      and t = "create_runtime_cli_tool (gh_tool_set (Some 3)) (lit ''gh'')" and n = 3, OF e r d]
  have 2: "cli_tool ascii_builtins exec_prints_abc
     (create_runtime_cli_tool (gh_tool_set (Some 3)) (lit ''gh'')) [] = Inr (lit ''abc'')"
    by (simp add: tl)
  from cli_tool_truncation [where exec = exec_prints_abc and args = "[]" and B = ascii_builtins
      and t = "create_runtime_cli_tool (gh_tool_set None) (lit ''gh'')" and n = 0, OF e r d]
  have 3: "cli_tool ascii_builtins exec_prints_abc
     (create_runtime_cli_tool (gh_tool_set None) (lit ''gh'')) [] = Inr (lit ''abc'')"
    by (simp add: tl)
  from 1 2 3 show ?thesis by simp
qed

text \<open>
  The claim as stated fails for \<open>truncate_length = 0\<close>: the output \<open>abc\<close> is longer
  than 0 code points, yet it is returned whole and not as the marker alone, because the
  guard \<open>self.truncate_length and ...\<close> treats 0 like an absent limit.
\<close>

theorem cli_tool_zero_length_counterexample:
  "cli_tool ascii_builtins exec_prints_abc
     (create_runtime_cli_tool (gh_tool_set (Some 0)) (lit ''gh'')) [] = Inr (lit ''abc'')
   \<and> 0 < length (lit ''abc'')
   \<and> lit ''abc'' \<noteq> take 0 (lit ''abc'') @ truncate_str"
  by (simp add: cli_tool_def create_runtime_cli_tool_def gh_tool_set_def BashTools_init_def
      exec_prints_abc_def decode_abc truncate_str_def)

text \<open>
  Claim C4.  \<open>get_tools\<close> builds one tool per entry of \<open>allowed_commands\<close>, in list
  order, and nothing else; with no allowed command it builds none.  The tool at position
  \<open>i\<close> is bound to the command at position \<open>i\<close> and carries its name with the suffix
  \<open>_cli\<close>.  Running it starts that command and no other: two operating systems that
  agree on what this one command does (in the working directory of the configuration) give
  the same result, whatever they do for every other command; when the command cannot be
  started the tool raises that error; and when it exits with status 0 and no truncation is
  configured the tool returns its decoded output.  So a command outside the list is never
  bound to a tool and is never started by one.
\<close>

theorem get_tools_closed_world:
  "length (get_tools self) = length (allowed_commands self)
   \<and> get_tools (BashTools_init None tlen wd) = []
   \<and> (\<forall>t \<in> set (get_tools self). bound_command t \<in> set (allowed_commands self))
   \<and> (\<forall>i < length (allowed_commands self).
        bound_command (get_tools self ! i) = allowed_commands self ! i
        \<and> func_name (get_tools self ! i) = allowed_commands self ! i @ lit ''_cli''
        \<and> (\<forall>exec exec' args.
              exec (allowed_commands self ! i) args (working_dir self)
                = exec' (allowed_commands self ! i) args (working_dir self)
              \<longrightarrow> cli_tool B exec (get_tools self ! i) args
                    = cli_tool B exec' (get_tools self ! i) args)
        \<and> (\<forall>exec args e.
              exec (allowed_commands self ! i) args (working_dir self) = Inl e
              \<longrightarrow> cli_tool B exec (get_tools self ! i) args = Inl e)
        \<and> (\<forall>exec args p out.
              exec (allowed_commands self ! i) args (working_dir self) = Inr p
              \<and> returncode p = 0 \<and> decode_utf8 (stdout p) = Some out
              \<and> truncate_length self = None
              \<longrightarrow> cli_tool B exec (get_tools self ! i) args = Inr out))"
proof (intro conjI allI impI ballI)
  show "length (get_tools self) = length (allowed_commands self)"
    by (simp add: get_tools_def)
  show "get_tools (BashTools_init None tlen wd) = []"
    by (simp add: get_tools_def BashTools_init_def)
  show "bound_command t \<in> set (allowed_commands self)" if "t \<in> set (get_tools self)" for t
    using that by (auto simp: get_tools_def create_runtime_cli_tool_def)
next
  fix i assume i: "i < length (allowed_commands self)"
  then have t: "get_tools self ! i = create_runtime_cli_tool self (allowed_commands self ! i)"
    by (simp add: get_tools_def)
  show "bound_command (get_tools self ! i) = allowed_commands self ! i"
    by (simp add: t create_runtime_cli_tool_def)
  show "func_name (get_tools self ! i) = allowed_commands self ! i @ lit ''_cli''"
    by (simp add: t create_runtime_cli_tool_def)
  show "cli_tool B exec (get_tools self ! i) args = cli_tool B exec' (get_tools self ! i) args"
    if "exec (allowed_commands self ! i) args (working_dir self)
          = exec' (allowed_commands self ! i) args (working_dir self)" for exec exec' args
    using that by (simp add: t create_runtime_cli_tool_def cli_tool_def)
  show "cli_tool B exec (get_tools self ! i) args = Inl e"
    if "exec (allowed_commands self ! i) args (working_dir self) = Inl e" for exec args e
    using that by (simp add: t create_runtime_cli_tool_def cli_tool_def)
  show "cli_tool B exec (get_tools self ! i) args = Inr out"
    if "exec (allowed_commands self ! i) args (working_dir self) = Inr p
        \<and> returncode p = 0 \<and> decode_utf8 (stdout p) = Some out \<and> truncate_length self = None"
    for exec args p out
    using that by (simp add: t create_runtime_cli_tool_def cli_tool_def)
qed

text \<open>
  The statement at the tools of the pipeline, \<open>gh\<close>, \<open>curl\<close> and \<open>jq\<close>: the second
  tool is bound to \<open>curl\<close>, and a system without \<open>jq\<close> makes the third tool raise.
\<close>

theorem get_tools_closed_world_witness:
  "bound_command (gh_tools ! 1) = lit ''curl''
   \<and> func_name (gh_tools ! 1) = lit ''curl_cli''
   \<and> cli_tool ascii_builtins exec_a (gh_tools ! 1) [lit ''-s''] =
       cli_tool ascii_builtins exec_only_curl (gh_tools ! 1) [lit ''-s'']
   \<and> exec_a (lit ''jq'') \<noteq> exec_only_curl (lit ''jq'')
   \<and> cli_tool ascii_builtins exec_only_curl (gh_tools ! 2) [] = Inl OSError
   \<and> cli_tool ascii_builtins exec_prints_abc (gh_tools ! 0) [] = Inr (lit ''abc'')"
proof -
  let ?self = "BashTools_init (Some [lit ''gh'', lit ''curl'', lit ''jq'']) None None"
  have ac: "allowed_commands ?self = [lit ''gh'', lit ''curl'', lit ''jq'']"
    and wd: "working_dir ?self = None" and tl: "truncate_length ?self = None"
    by (simp_all add: BashTools_init_def)
  have g: "get_tools ?self = gh_tools" by (simp add: gh_tools_def)
  note T = get_tools_closed_world [of ?self None None ascii_builtins,
      THEN conjunct2, THEN conjunct2, THEN conjunct2, rule_format]
  have i0: "0 < length (allowed_commands ?self)" and i1: "1 < length (allowed_commands ?self)"
    and i2: "2 < length (allowed_commands ?self)"
    by (simp_all add: ac)
  have 1: "bound_command (gh_tools ! 1) = lit ''curl''"
    using T [OF i1, THEN conjunct1] by (simp add: ac g)
  have cat: "lit ''curl'' @ lit ''_cli'' = lit ''curl_cli''"
    by (simp add: lit_def)
  have 2: "func_name (gh_tools ! 1) = lit ''curl_cli''"
    using T [OF i1, THEN conjunct2, THEN conjunct1] by (simp add: ac g cat)
  have agree: "exec_a (allowed_commands ?self ! 1) [lit ''-s''] (working_dir ?self)
      = exec_only_curl (allowed_commands ?self ! 1) [lit ''-s''] (working_dir ?self)"
    by (simp add: ac exec_a_def exec_only_curl_def)
  have 3: "cli_tool ascii_builtins exec_a (gh_tools ! 1) [lit ''-s''] =
       cli_tool ascii_builtins exec_only_curl (gh_tools ! 1) [lit ''-s'']"
    using T [OF i1, THEN conjunct2, THEN conjunct2, THEN conjunct1, rule_format,
        where exec = exec_a and exec' = exec_only_curl and args = "[lit ''-s'']", OF agree]
    by (simp only: g)
  have 4: "exec_a (lit ''jq'') \<noteq> exec_only_curl (lit ''jq'')"
    by (simp add: exec_a_def exec_only_curl_def fun_eq_iff)
  have fails: "exec_only_curl (allowed_commands ?self ! 2) [] (working_dir ?self) = Inl OSError"
    by (simp add: ac exec_only_curl_def)
  have 5: "cli_tool ascii_builtins exec_only_curl (gh_tools ! 2) [] = Inl OSError"
    using T [OF i2, THEN conjunct2, THEN conjunct2, THEN conjunct2, THEN conjunct1, rule_format,
        where exec = exec_only_curl and args = "[]" and e = OSError, OF fails]
    by (simp only: g)
  have ok: "exec_prints_abc (allowed_commands ?self ! 0) [] (working_dir ?self)
            = Inr \<lparr>returncode = 0, stdout = [97, 98, 99], stderr = []\<rparr>
          \<and> returncode \<lparr>returncode = 0, stdout = [97, 98, 99], stderr = []\<rparr> = 0
          \<and> decode_utf8 (stdout \<lparr>returncode = 0, stdout = [97, 98, 99], stderr = []\<rparr>)
              = Some (lit ''abc'')
          \<and> truncate_length ?self = None"
    by (simp add: exec_prints_abc_def decode_abc tl)
  have 6: "cli_tool ascii_builtins exec_prints_abc (gh_tools ! 0) [] = Inr (lit ''abc'')"
    using T [OF i0, THEN conjunct2, THEN conjunct2, THEN conjunct2, THEN conjunct2, rule_format,
        where exec = exec_prints_abc and args = "[]" and out = "lit ''abc''"
          and p = "\<lparr>returncode = 0, stdout = [97, 98, 99], stderr = []\<rparr>", OF ok]
    by (simp only: g)
  from 1 2 3 4 5 6 show ?thesis by simp
qed

section \<open>The URL parser: results\<close>

lemma strip_prefix_append [simp]: "strip_prefix p (p @ r) = Some r"
  by (induction p) auto

lemma strip_prefix_Some: "strip_prefix p s = Some r \<Longrightarrow> s = p @ r"
  by (induction p s rule: strip_prefix.induct) (auto split: if_splits)

lemma takeWhile_run: "\<forall>c \<in> set xs. P c \<Longrightarrow> takeWhile P (xs @ ys) = xs @ takeWhile P ys"
  by (induction xs) auto

lemma dropWhile_run: "\<forall>c \<in> set xs. P c \<Longrightarrow> dropWhile P (xs @ ys) = dropWhile P ys"
  by (induction xs) auto

lemma not_slash_47 [simp]: "\<not> not_slash 47"
  by (simp add: not_slash_def)

lemma lit_Cons: "lit (c # s) = of_char c # lit s"
  by (simp add: lit_def)

lemma segment_take:
  "\<forall>c \<in> set xs. not_slash c \<Longrightarrow> takeWhile not_slash (xs @ lit (CHR ''/'' # s) @ r) = xs"
  by (simp add: takeWhile_run lit_Cons)

lemma segment_drop:
  "\<forall>c \<in> set xs. not_slash c \<Longrightarrow>
   dropWhile not_slash (xs @ lit (CHR ''/'' # s) @ r) = lit (CHR ''/'' # s) @ r"
  by (simp add: dropWhile_run lit_Cons)

lemma parse_pr_url_accepts:
  assumes "ow \<noteq> []" "\<forall>c \<in> set ow. not_slash c"
    and "rp \<noteq> []" "\<forall>c \<in> set rp. not_slash c"
    and "digits \<noteq> []" "\<forall>c \<in> set digits. isdecimal B c"
  shows "parse_pr_url B (lit ''https://github.com/'' @ ow @ lit ''/'' @ rp @ lit ''/pull/''
                          @ digits @ rest)
         = Some \<lparr>owner = ow, repo = rp, pr_number = digits @ takeWhile (isdecimal B) rest\<rparr>"
proof -
  let ?r3 = "digits @ rest"
  let ?r2 = "rp @ lit ''/pull/'' @ ?r3"
  let ?r1 = "ow @ lit ''/'' @ ?r2"
  have t1: "takeWhile not_slash ?r1 = ow" and d1: "dropWhile not_slash ?r1 = lit ''/'' @ ?r2"
    using assms(2) by (simp_all only: segment_take segment_drop)
  have t2: "takeWhile not_slash ?r2 = rp" and d2: "dropWhile not_slash ?r2 = lit ''/pull/'' @ ?r3"
    using assms(4) by (simp_all only: segment_take segment_drop)
  have t3: "takeWhile (isdecimal B) ?r3 = digits @ takeWhile (isdecimal B) rest"
    using assms(6) by (simp add: takeWhile_run)
  show ?thesis
    unfolding parse_pr_url_def
    by (simp only: strip_prefix_append t1 d1 t2 d2 t3 option.case) (simp add: assms)
qed

lemma parse_pr_url_shape:
  assumes "parse_pr_url B url = Some pr"
  shows "\<exists>rest. url = lit ''https://github.com/'' @ owner pr @ lit ''/'' @ repo pr
                      @ lit ''/pull/'' @ pr_number pr @ rest
         \<and> owner pr \<noteq> [] \<and> (\<forall>c \<in> set (owner pr). not_slash c)
         \<and> repo pr \<noteq> [] \<and> (\<forall>c \<in> set (repo pr). not_slash c)
         \<and> pr_number pr \<noteq> [] \<and> (\<forall>c \<in> set (pr_number pr). isdecimal B c)"
proof -
  from assms obtain r1 r2 r3 where
    s1: "strip_prefix (lit ''https://github.com/'') url = Some r1"
    and o: "takeWhile not_slash r1 \<noteq> []"
    and s2: "strip_prefix (lit ''/'') (dropWhile not_slash r1) = Some r2"
    and r: "takeWhile not_slash r2 \<noteq> []"
    and s3: "strip_prefix (lit ''/pull/'') (dropWhile not_slash r2) = Some r3"
    and n: "takeWhile (isdecimal B) r3 \<noteq> []"
    and pr: "pr = \<lparr>owner = takeWhile not_slash r1, repo = takeWhile not_slash r2,
                  pr_number = takeWhile (isdecimal B) r3\<rparr>"
    by (auto simp: parse_pr_url_def split: option.splits if_splits)
  have u: "url = lit ''https://github.com/'' @ r1" using s1 by (rule strip_prefix_Some)
  have "dropWhile not_slash r1 = lit ''/'' @ r2" using s2 by (rule strip_prefix_Some)
  then have e1: "r1 = takeWhile not_slash r1 @ lit ''/'' @ r2"
    by (metis takeWhile_dropWhile_id)
  have "dropWhile not_slash r2 = lit ''/pull/'' @ r3" using s3 by (rule strip_prefix_Some)
  then have e2: "r2 = takeWhile not_slash r2 @ lit ''/pull/'' @ r3"
    by (metis takeWhile_dropWhile_id)
  have e3: "r3 = takeWhile (isdecimal B) r3 @ dropWhile (isdecimal B) r3"
    by simp
  have full: "url = lit ''https://github.com/'' @ owner pr @ lit ''/'' @ repo pr @ lit ''/pull/''
                    @ pr_number pr @ dropWhile (isdecimal B) r3"
    using u e1 e2 e3 by (simp add: pr)
  have props: "owner pr \<noteq> [] \<and> (\<forall>c \<in> set (owner pr). not_slash c)
         \<and> repo pr \<noteq> [] \<and> (\<forall>c \<in> set (repo pr). not_slash c)
         \<and> pr_number pr \<noteq> [] \<and> (\<forall>c \<in> set (pr_number pr). isdecimal B c)"
    using o r n by (auto simp: pr dest: set_takeWhileD)
  from full props show ?thesis by blast
qed

text \<open>
  Claim C10: parsing matches a prefix of the input.  Every string that begins with
  \<open>https://github.com/<owner>/<repo>/pull/<digits>\<close> (owner and repository name not empty
  and free of \<open>/\<close>, at least one digit) is parsed, whatever follows the digits, and the
  extracted \<open>pr_number\<close> is the leading run of digits after \<open>/pull/\<close>.
\<close>
theorem parse_pr_url_matches_prefix:
  assumes "ow \<noteq> []" "\<forall>c \<in> set ow. not_slash c"
    and "rp \<noteq> []" "\<forall>c \<in> set rp. not_slash c"
    and "digits \<noteq> []" "\<forall>c \<in> set digits. isdecimal B c"
  shows "parse_pr_url B (lit ''https://github.com/'' @ ow @ lit ''/'' @ rp @ lit ''/pull/''
                          @ digits @ rest)
         = Some \<lparr>owner = ow, repo = rp,
                 pr_number = takeWhile (isdecimal B) (digits @ rest)\<rparr>"
  using parse_pr_url_accepts [OF assms] assms(6) by (simp add: takeWhile_run)

theorem parse_pr_url_matches_prefix_witness:
  "parse_pr_url ascii_builtins (lit ''https://github.com/o/r/pull/123/files'')
     = Some \<lparr>owner = lit ''o'', repo = lit ''r'', pr_number = lit ''123''\<rparr>"
proof -
  have "parse_pr_url ascii_builtins
          (lit ''https://github.com/'' @ lit ''o'' @ lit ''/'' @ lit ''r'' @ lit ''/pull/''
            @ lit ''123'' @ lit ''/files'')
        = Some \<lparr>owner = lit ''o'', repo = lit ''r'',
                pr_number = takeWhile (isdecimal ascii_builtins) (lit ''123'' @ lit ''/files'')\<rparr>"
    by (rule parse_pr_url_matches_prefix) (simp_all add: lit_def not_slash_def ascii_builtins_def)
  then show ?thesis
    by (simp add: lit_def ascii_builtins_def)
qed

section \<open>The orchestrator: results\<close>

lemma yielded_after [simp]: "yielded (after evs r) = evs @ yielded r"
  by (simp add: after_def)

lemma final_state_after [simp]: "final_state (after evs r) = final_state r"
  by (simp add: after_def)

lemma raised_after [simp]: "raised (after evs r) = raised r"
  by (simp add: after_def)

lemma parse_pr_url_Nil [simp]: "parse_pr_url B [] = None"
  by (simp add: parse_pr_url_def lit_def)

text \<open>
  Claim C2, as amended.  The host of the pattern is fixed to \<open>github.com\<close> and the
  pattern is matched against a prefix of the string: parsing succeeds exactly for the strings
  that begin with \<open>https://github.com/<owner>/<repo>/pull/<digits>\<close>.  For every other
  string validation fails: the run consists of one diagnostic event and ends there, with the
  state untouched and no worker consulted.  For a string that parses, the run is the rest of
  the pipeline from step 1 on: it yields the progress event of FETCHING and then the events of
  the fetch worker.
\<close>
theorem url_validation:
  assumes "dict_get st (lit ''pull_request_url'') PNone = PStr url"
  shows "(parse_pr_url B url \<noteq> None \<longleftrightarrow>
            (\<exists>ow rp ds rest.
               url = lit ''https://github.com/'' @ ow @ lit ''/'' @ rp @ lit ''/pull/'' @ ds @ rest
               \<and> ow \<noteq> [] \<and> (\<forall>c \<in> set ow. not_slash c)
               \<and> rp \<noteq> [] \<and> (\<forall>c \<in> set rp. not_slash c)
               \<and> ds \<noteq> [] \<and> (\<forall>c \<in> set ds. isdecimal B c)))
       \<and> (parse_pr_url B url = None \<longrightarrow>
            run_async_impl B W name st =
              halt [(if url = [] then no_url_event name else invalid_url_event name, st)] st)
       \<and> (\<forall>pr. parse_pr_url B url = Some pr \<longrightarrow>
            run_async_impl B W name st =
              step1_fetch B W name pr (dict_get st (lit ''review_criteria'') (PDict []))
                (dict_get st (lit ''severity_threshold'') (PStr (lit ''low''))) st
            \<and> (\<exists>rest. yielded (run_async_impl B W name st) =
                  (Event ''assistant'' (128269 # lit '' Fetching pull request details...'') name, st)
                  # fst (fetch_pr_details W pr st) @ rest))"
proof (intro conjI allI impI)
  show "parse_pr_url B url \<noteq> None \<longleftrightarrow>
            (\<exists>ow rp ds rest.
               url = lit ''https://github.com/'' @ ow @ lit ''/'' @ rp @ lit ''/pull/'' @ ds @ rest
               \<and> ow \<noteq> [] \<and> (\<forall>c \<in> set ow. not_slash c)
               \<and> rp \<noteq> [] \<and> (\<forall>c \<in> set rp. not_slash c)
               \<and> ds \<noteq> [] \<and> (\<forall>c \<in> set ds. isdecimal B c))"
  proof
    assume "parse_pr_url B url \<noteq> None"
    then obtain pr where "parse_pr_url B url = Some pr" by blast
    from parse_pr_url_shape [OF this] show "\<exists>ow rp ds rest.
               url = lit ''https://github.com/'' @ ow @ lit ''/'' @ rp @ lit ''/pull/'' @ ds @ rest
               \<and> ow \<noteq> [] \<and> (\<forall>c \<in> set ow. not_slash c)
               \<and> rp \<noteq> [] \<and> (\<forall>c \<in> set rp. not_slash c)
               \<and> ds \<noteq> [] \<and> (\<forall>c \<in> set ds. isdecimal B c)"
      by blast
  next
    assume "\<exists>ow rp ds rest.
               url = lit ''https://github.com/'' @ ow @ lit ''/'' @ rp @ lit ''/pull/'' @ ds @ rest
               \<and> ow \<noteq> [] \<and> (\<forall>c \<in> set ow. not_slash c)
               \<and> rp \<noteq> [] \<and> (\<forall>c \<in> set rp. not_slash c)
               \<and> ds \<noteq> [] \<and> (\<forall>c \<in> set ds. isdecimal B c)"
    then show "parse_pr_url B url \<noteq> None"
      using parse_pr_url_accepts by fastforce
  qed
next
  assume "parse_pr_url B url = None"
  then show "run_async_impl B W name st =
              halt [(if url = [] then no_url_event name else invalid_url_event name, st)] st"
    using assms by (simp add: run_async_impl_def)
next
  fix pr assume p: "parse_pr_url B url = Some pr"
  then have ne: "url \<noteq> []" by auto
  show r: "run_async_impl B W name st =
              step1_fetch B W name pr (dict_get st (lit ''review_criteria'') (PDict []))
                (dict_get st (lit ''severity_threshold'') (PStr (lit ''low''))) st"
    using assms p ne by (simp add: run_async_impl_def)
  show "\<exists>rest. yielded (run_async_impl B W name st) =
                  (Event ''assistant'' (128269 # lit '' Fetching pull request details...'') name, st)
                  # fst (fetch_pr_details W pr st) @ rest"
    unfolding r step1_fetch_def by (simp add: split_beta)
qed

theorem url_validation_witness:
  "run_async_impl ascii_builtins idle_workers (lit ''agent'') (url_state ''https://github.com/o/r'')
     = halt [(invalid_url_event (lit ''agent''), url_state ''https://github.com/o/r'')]
         (url_state ''https://github.com/o/r'')
   \<and> run_async_impl ascii_builtins idle_workers (lit ''agent'')
       (url_state ''https://github.com/acme/widgets/pull/42'')
     = step1_fetch ascii_builtins idle_workers (lit ''agent'')
         \<lparr>owner = lit ''acme'', repo = lit ''widgets'', pr_number = lit ''42''\<rparr>
         (PDict []) (PStr (lit ''low'')) (url_state ''https://github.com/acme/widgets/pull/42'')"
proof -
  have bad: "parse_pr_url ascii_builtins (lit ''https://github.com/o/r'') = None"
    by (simp add: parse_pr_url_def lit_def not_slash_def)
  have good: "parse_pr_url ascii_builtins (lit ''https://github.com/acme/widgets/pull/42'')
      = Some \<lparr>owner = lit ''acme'', repo = lit ''widgets'', pr_number = lit ''42''\<rparr>"
    by (simp add: parse_pr_url_def lit_def not_slash_def ascii_builtins_def)
  have g: "dict_get (url_state u) (lit ''pull_request_url'') PNone = PStr (lit u)" for u
    by (simp add: url_state_def dict_get_def)
  from url_validation [where B = ascii_builtins and W = idle_workers and name = "lit ''agent''",
      OF g [of "''https://github.com/o/r''"]] bad
  have 1: "run_async_impl ascii_builtins idle_workers (lit ''agent'') (url_state ''https://github.com/o/r'')
     = halt [(invalid_url_event (lit ''agent''), url_state ''https://github.com/o/r'')]
         (url_state ''https://github.com/o/r'')"
    by simp
  from url_validation [where B = ascii_builtins and W = idle_workers and name = "lit ''agent''",
      OF g [of "''https://github.com/acme/widgets/pull/42''"]] good
  have 2: "run_async_impl ascii_builtins idle_workers (lit ''agent'')
       (url_state ''https://github.com/acme/widgets/pull/42'')
     = step1_fetch ascii_builtins idle_workers (lit ''agent'')
         \<lparr>owner = lit ''acme'', repo = lit ''widgets'', pr_number = lit ''42''\<rparr>
         (PDict []) (PStr (lit ''low'')) (url_state ''https://github.com/acme/widgets/pull/42'')"
    by (simp add: url_state_def dict_get_def)
  from 1 2 show ?thesis by simp
qed

text \<open>
  The claim as stated fails for a host other than \<open>github.com\<close>: the string below has
  the shape \<open>https://<host>/<owner>/<repo>/pull/<digits>\<close>, and parsing it returns
  nothing.
\<close>

theorem spec_pattern_other_host_counterexample:
  "spec_pr_url_pattern ascii_builtins (lit ''https://gitlab.com/o/r/pull/1'')
   \<and> parse_pr_url ascii_builtins (lit ''https://gitlab.com/o/r/pull/1'') = None"
  by (simp add: spec_pr_url_pattern_def parse_pr_url_def lit_def not_slash_def ascii_builtins_def)

section \<open>Request validation: results\<close>

lemma update_tabulate:
  "distinct ks \<Longrightarrow> AList.update k v (map (\<lambda>x. (x, g x)) ks) =
     (if k \<in> set ks then map (\<lambda>x. (x, (g(k := v)) x)) ks else map (\<lambda>x. (x, g x)) ks @ [(k, v)])"
  by (induction ks) auto

lemma map_of_tabulate: "map_of (map (\<lambda>x. (x, g x)) ks) k = (if k \<in> set ks then Some (g k) else None)"
  by (induction ks) auto

lemma criteria_step:
  "distinct ks \<Longrightarrow>
   (if dict_has (map (\<lambda>x. (x, PBool (f x))) ks) key
    then dict_set (map (\<lambda>x. (x, PBool (f x))) ks) key (PBool b)
    else map (\<lambda>x. (x, PBool (f x))) ks)
   = map (\<lambda>x. (x, PBool ((f(key := b)) x))) ks"
  by (auto simp: dict_has_def dict_set_def map_of_tabulate update_tabulate)

lemma criteria_fold:
  "distinct (map fst items) \<Longrightarrow> distinct ks \<Longrightarrow>
   fold (\<lambda>(key, val) d. if dict_has d key then dict_set d key (PBool (truthy val)) else d)
     items (map (\<lambda>x. (x, PBool (f x))) ks)
   = map (\<lambda>x. (x, PBool (case map_of items x of None \<Rightarrow> f x | Some v \<Rightarrow> truthy v))) ks"
proof (induction items arbitrary: f)
  case Nil
  then show ?case by simp
next
  case (Cons kv items)
  obtain key val where kv: "kv = (key, val)" by (cases kv)
  from Cons.prems have fresh: "map_of items key = None" and d: "distinct (map fst items)"
    by (auto simp: kv map_of_eq_None_iff)
  show ?case
    by (simp add: kv criteria_step [OF Cons.prems(2)] Cons.IH [OF d Cons.prems(2)] fresh)
qed

lemma default_criteria_tabulate:
  "default_criteria =
     map (\<lambda>x. (x, PBool ((\<lambda>_. True) x)))
       [lit ''code_quality'', lit ''security'', lit ''performance'', lit ''style'',
        lit ''documentation'']"
  by (simp add: default_criteria_def)

text \<open>
  Claim C8: for every mapping of review criteria, normalisation returns a mapping with
  exactly the five keys \<open>code_quality\<close>, \<open>security\<close>, \<open>performance\<close>, \<open>style\<close> and
  \<open>documentation\<close>, in this order, each holding a boolean: the truth value of the
  caller's entry for the key, and \<open>True\<close> where the caller has none.  Entries under other
  keys are dropped.  An empty mapping, or \<open>None\<close>, yields the defaults, all five
  \<open>True\<close>.
\<close>
theorem validate_review_criteria_normalizes:
  "(\<not> truthy criteria \<longrightarrow> validate_review_criteria criteria = Inr (PDict default_criteria))
   \<and> default_criteria =
       [(lit ''code_quality'', PBool True), (lit ''security'', PBool True),
        (lit ''performance'', PBool True), (lit ''style'', PBool True),
        (lit ''documentation'', PBool True)]
   \<and> (distinct (map fst items) \<longrightarrow>
        validate_review_criteria (PDict items) =
          Inr (PDict [(lit ''code_quality'', normalized_flag items ''code_quality''),
                      (lit ''security'', normalized_flag items ''security''),
                      (lit ''performance'', normalized_flag items ''performance''),
                      (lit ''style'', normalized_flag items ''style''),
                      (lit ''documentation'', normalized_flag items ''documentation'')]))"
proof (intro conjI impI)
  show "\<not> truthy criteria \<Longrightarrow> validate_review_criteria criteria = Inr (PDict default_criteria)"
    by (simp add: validate_review_criteria_def)
  show "default_criteria =
       [(lit ''code_quality'', PBool True), (lit ''security'', PBool True),
        (lit ''performance'', PBool True), (lit ''style'', PBool True),
        (lit ''documentation'', PBool True)]"
    by (simp add: default_criteria_def)
  assume d: "distinct (map fst items)"
  have keys: "distinct [lit ''code_quality'', lit ''security'', lit ''performance'', lit ''style'',
        lit ''documentation'']"
    by simp
  show "validate_review_criteria (PDict items) =
          Inr (PDict [(lit ''code_quality'', normalized_flag items ''code_quality''),
                      (lit ''security'', normalized_flag items ''security''),
                      (lit ''performance'', normalized_flag items ''performance''),
                      (lit ''style'', normalized_flag items ''style''),
                      (lit ''documentation'', normalized_flag items ''documentation'')])"
  proof (cases "items = []")
    case True
    then show ?thesis
      by (simp add: validate_review_criteria_def default_criteria_def normalized_flag_def)
  next
    case False
    then show ?thesis
      unfolding validate_review_criteria_def default_criteria_tabulate
      by (simp only: criteria_fold [OF d keys] truthy.simps if_False not_False_eq_True not_True_eq_False
            pyval.case simp_thms)
         (simp add: normalized_flag_def)
  qed
qed

theorem validate_review_criteria_normalizes_witness:
  "validate_review_criteria
     (PDict [(lit ''security'', PBool False), (lit ''speed'', PBool True), (lit ''style'', PInt 0)])
   = Inr (PDict [(lit ''code_quality'', PBool True), (lit ''security'', PBool False),
                 (lit ''performance'', PBool True), (lit ''style'', PBool False),
                 (lit ''documentation'', PBool True)])
   \<and> validate_review_criteria (PDict []) = Inr (PDict default_criteria)"
proof -
  let ?items = "[(lit ''security'', PBool False), (lit ''speed'', PBool True), (lit ''style'', PInt 0)]"
  have d: "distinct (map fst ?items)" by simp
  from validate_review_criteria_normalizes [of "PDict []" ?items] d
  show ?thesis
    by (simp add: normalized_flag_def)
qed

text \<open>
  Claim C9: a severity threshold outside \<open>low\<close>, \<open>medium\<close>, \<open>high\<close>, \<open>critical\<close> is
  replaced by \<open>low\<close>, a threshold inside the set is kept, and the session state that the
  request handler builds, from which the orchestrator reads the threshold, holds the
  validated value.
\<close>
theorem validate_severity_threshold_default:
  "(threshold \<notin> {PStr (lit ''low''), PStr (lit ''medium''), PStr (lit ''high''),
                  PStr (lit ''critical'')} \<longrightarrow>
      validate_severity_threshold threshold = PStr (lit ''low''))
   \<and> (threshold \<in> {PStr (lit ''low''), PStr (lit ''medium''), PStr (lit ''high''),
                    PStr (lit ''critical'')} \<longrightarrow>
      validate_severity_threshold threshold = threshold)
   \<and> (request_session_state d = Inr st \<longrightarrow>
        dict_get st (lit ''severity_threshold'') (PStr (lit ''low'')) =
          validate_severity_threshold
            (dict_get d (lit ''severity_threshold'') (PStr (lit ''low''))))"
  by (auto simp: validate_severity_threshold_def valid_thresholds_def request_session_state_def
        dict_get_def Let_def split: sum.splits)

theorem validate_severity_threshold_default_witness:
  "validate_severity_threshold (PStr (lit ''urgent'')) = PStr (lit ''low'')
   \<and> validate_severity_threshold (PInt 3) = PStr (lit ''low'')
   \<and> validate_severity_threshold (PStr (lit ''high'')) = PStr (lit ''high'')
   \<and> request_session_state [(lit ''severity_threshold'', PStr (lit ''urgent''))]
       = Inr [(lit ''pull_request_url'', PNone),
              (lit ''review_criteria'', PDict default_criteria),
              (lit ''severity_threshold'', PStr (lit ''low'')),
              (lit ''post_comments'', PBool False)]"
proof -
  let ?d = "[(lit ''severity_threshold'', PStr (lit ''urgent''))]"
  have rs: "request_session_state ?d
       = Inr [(lit ''pull_request_url'', PNone),
              (lit ''review_criteria'', PDict default_criteria),
              (lit ''severity_threshold'', validate_severity_threshold (PStr (lit ''urgent''))),
              (lit ''post_comments'', PBool False)]"
    by (simp add: request_session_state_def dict_get_def validate_review_criteria_def)
  from validate_severity_threshold_default [of "PStr (lit ''urgent'')"]
  have 1: "validate_severity_threshold (PStr (lit ''urgent'')) = PStr (lit ''low'')" by simp
  from validate_severity_threshold_default [of "PInt 3"]
  have 2: "validate_severity_threshold (PInt 3) = PStr (lit ''low'')" by simp
  from validate_severity_threshold_default [of "PStr (lit ''high'')"]
  have 3: "validate_severity_threshold (PStr (lit ''high'')) = PStr (lit ''high'')" by simp
  from 1 2 3 rs show ?thesis by simp
qed

section \<open>Finalizing: results\<close>

lemma required_Nil [simp]: "\<not> required [] k P"
  by (simp add: required_def)

lemma is_ReviewResult_truthy: "is_ReviewResult v \<Longrightarrow> truthy v"
  by (cases v) auto

lemma is_ReviewResult_sample: "is_ReviewResult sample_review"
  by (simp add: sample_review_def required_def optional_def)

lemma is_ReviewResult_dict: "is_ReviewResult v \<Longrightarrow> \<exists>d. v = PDict d"
  by (cases v) auto

lemma generate_final_result_eq:
  "generate_final_result name st =
    ([(Event ''system'' (lit ''Final result generated'') name,
       dict_set st (lit ''final_result'')
         (if truthy (dict_get st (lit ''review_comments'') (PDict []))
          then dict_get st (lit ''review_comments'') (PDict []) else fallback_result))],
     dict_set st (lit ''final_result'')
       (if truthy (dict_get st (lit ''review_comments'') (PDict []))
        then dict_get st (lit ''review_comments'') (PDict []) else fallback_result))"
  by (simp add: generate_final_result_def Let_def)

lemma final_state_step5:
  "final_state (step5_final B name st) =
     dict_set st (lit ''final_result'')
       (if truthy (dict_get st (lit ''review_comments'') (PDict []))
        then dict_get st (lit ''review_comments'') (PDict []) else fallback_result)"
  by (simp add: step5_final_def generate_final_result_eq halt_def Let_def split: pyval.splits)

lemma yielded_step5_first:
  "\<exists>rest. yielded (step5_final B name st) =
     (Event ''system'' (lit ''Final result generated'') name, final_state (step5_final B name st))
     # rest"
  by (simp add: final_state_step5)
     (simp add: step5_final_def generate_final_result_eq halt_def Let_def split: pyval.splits)

lemma raised_step5_dict:
  assumes "is_ReviewResult (dict_get st (lit ''review_comments'') (PDict []))"
  shows "raised (step5_final B name st) = None"
proof -
  from assms obtain d where d: "dict_get st (lit ''review_comments'') (PDict []) = PDict d"
    using is_ReviewResult_dict by blast
  have t: "truthy (dict_get st (lit ''review_comments'') (PDict []))"
    using assms by (rule is_ReviewResult_truthy)
  show ?thesis
    using t d by (simp add: step5_final_def generate_final_result_eq halt_def Let_def)
qed

lemma raised_step5:
  "raised (step5_final B name st) =
     (case (if truthy (dict_get st (lit ''review_comments'') (PDict []))
            then dict_get st (lit ''review_comments'') (PDict []) else fallback_result) of
        PDict result \<Rightarrow> None
      | _ \<Rightarrow> Some AttributeError)"
proof -
  define v where "v = (if truthy (dict_get st (lit ''review_comments'') (PDict []))
            then dict_get st (lit ''review_comments'') (PDict []) else fallback_result)"
  have g: "generate_final_result name st =
      ([(Event ''system'' (lit ''Final result generated'') name,
         dict_set st (lit ''final_result'') v)], dict_set st (lit ''final_result'') v)"
    by (simp add: generate_final_result_eq v_def)
  have "raised (step5_final B name st) = (case v of PDict result \<Rightarrow> None | _ \<Rightarrow> Some AttributeError)"
    unfolding step5_final_def g by (cases v) (simp_all add: halt_def Let_def)
  then show ?thesis by (simp only: v_def)
qed

lemma raised_step5_cong:
  "dict_get st1 (lit ''review_comments'') (PDict []) = dict_get st (lit ''review_comments'') (PDict [])
   \<Longrightarrow> raised (step5_final B name st1) = raised (step5_final B name st)"
  by (simp only: raised_step5)

lemma content_Event [simp]: "content (Event r t a) \<noteq> None"
  by (simp add: Event_def)




section \<open>Posting: results\<close>

lemma run_llm_agent_Inr:
  "snd (w st) = Inr out \<Longrightarrow>
   run_llm_agent w key st =
     (map (\<lambda>ev. (ev, case out of None \<Rightarrow> st | Some v \<Rightarrow> dict_set st (lit key) v)) (fst (w st)),
      (case out of None \<Rightarrow> st | Some v \<Rightarrow> dict_set st (lit key) v), None)"
  by (cases "w st") (simp add: run_llm_agent_def Let_def)

lemma run_llm_agent_Inl:
  "snd (w st) = Inl e \<Longrightarrow>
   run_llm_agent w key st = (map (\<lambda>ev. (ev, st)) (fst (w st)), st, Some e)"
  by (cases "w st") (simp add: run_llm_agent_def)

lemma run_llm_agent_other_key:
  "k \<noteq> lit key \<Longrightarrow> map_of (fst (snd (run_llm_agent w key st))) k = map_of st k"
  by (cases "w st"; cases "snd (w st)")
     (auto simp: run_llm_agent_def Let_def split: option.splits)

lemma run_llm_agent_raised:
  "snd (snd (run_llm_agent w key st)) = (case snd (w st) of Inl e \<Rightarrow> Some e | Inr out \<Rightarrow> None)"
  by (cases "w st"; cases "snd (w st)") (auto simp: run_llm_agent_def Let_def)

lemma after_after: "after evs (after evs' r) = after (evs @ evs') r"
  by (simp add: after_def)

lemma parse_acme:
  "parse_pr_url ascii_builtins (lit ''https://github.com/acme/widgets/pull/42'')
      = Some \<lparr>owner = lit ''acme'', repo = lit ''widgets'', pr_number = lit ''42''\<rparr>"
  by (simp add: parse_pr_url_def lit_def not_slash_def ascii_builtins_def)

lemma reviewed_state_gets:
  "dict_get (reviewed_state b) (lit ''post_comments'') (PBool False) = PBool b"
  "dict_get (reviewed_state b) (lit ''review_comments'') (PDict []) = sample_review"
  "map_of (reviewed_state b) (lit ''post_result'') = None"
  by (simp_all add: reviewed_state_def dict_get_def)

text \<open>
  Claim C7, as amended.  POSTING runs exactly when \<open>post_comments\<close> is truthy: then the
  run continues with the progress event of POSTING and the events of the posting delegation,
  and otherwise step 4 is step 5.  The outcome of a posting delegation that returns is not
  checked: whether or not it wrote \<open>post_result\<close>, the run goes on to FINALIZING, which
  stores the value of \<open>review_comments\<close> (the fallback when it is falsy) as the final
  result and yields its event, and the run ends as step 5 ends; with a validated
  \<open>ReviewResult\<close> it ends normally.  The state records what the delegation wrote.  The
  orchestrator catches no exception: a posting delegation that raises ends the run with that
  exception, at the last event of the delegation, with the state as it was and FINALIZING
  not reached.
\<close>

theorem posting_not_checked:
  "(truthy (dict_get st (lit ''post_comments'') (PBool False)) \<longrightarrow>
      (\<exists>rest. yielded (step4_post B W name pr st) =
         (Event ''assistant'' (128221 # lit '' Posting review comments to pull request...'') name, st)
         # fst (post_review_comments W pr st) @ rest))
   \<and> (\<not> truthy (dict_get st (lit ''post_comments'') (PBool False)) \<longrightarrow>
      step4_post B W name pr st = step5_final B name st)
   \<and> (\<not> truthy (dict_get st (lit ''post_comments'') (PBool False))
       \<or> snd (post_agent W gh_tools pr (dict_get st (lit ''review_comments'') (PDict [])) st)
           = Inr out \<longrightarrow>
        map_of (final_state (step4_post B W name pr st)) (lit ''final_result'') =
          Some (if truthy (dict_get st (lit ''review_comments'') (PDict []))
                then dict_get st (lit ''review_comments'') (PDict []) else fallback_result)
        \<and> (\<exists>before rest. yielded (step4_post B W name pr st) =
              before @ (Event ''system'' (lit ''Final result generated'') name,
                        final_state (step4_post B W name pr st)) # rest)
        \<and> raised (step4_post B W name pr st) = raised (step5_final B name st)
        \<and> (is_ReviewResult (dict_get st (lit ''review_comments'') (PDict [])) \<longrightarrow>
             raised (step4_post B W name pr st) = None))
   \<and> (truthy (dict_get st (lit ''post_comments'') (PBool False))
       \<and> snd (post_agent W gh_tools pr (dict_get st (lit ''review_comments'') (PDict [])) st)
           = Inr out \<longrightarrow>
        map_of (final_state (step4_post B W name pr st)) (lit ''post_result'') =
          (case out of None \<Rightarrow> map_of st (lit ''post_result'') | Some v \<Rightarrow> Some v))
   \<and> (truthy (dict_get st (lit ''post_comments'') (PBool False))
       \<and> snd (post_agent W gh_tools pr (dict_get st (lit ''review_comments'') (PDict [])) st)
           = Inl e \<longrightarrow>
        raised (step4_post B W name pr st) = Some e
        \<and> final_state (step4_post B W name pr st) = st
        \<and> yielded (step4_post B W name pr st) =
            (Event ''assistant'' (128221 # lit '' Posting review comments to pull request...'') name,
             st)
            # fst (post_review_comments W pr st))"
proof -
  let ?pc = "truthy (dict_get st (lit ''post_comments'') (PBool False))"
  let ?rc = "dict_get st (lit ''review_comments'') (PDict [])"
  let ?w = "post_agent W gh_tools pr ?rc"
  let ?ev = "(Event ''assistant'' (128221 # lit '' Posting review comments to pull request...'')
               name, st)"
  let ?fin = "Event ''system'' (lit ''Final result generated'') name"
  have prc: "post_review_comments W pr st = run_llm_agent ?w ''post_result'' st"
    by (simp add: post_review_comments_def)
  have step5: "map_of (final_state (step5_final B name s)) (lit ''final_result'') =
          Some (if truthy (dict_get s (lit ''review_comments'') (PDict []))
                then dict_get s (lit ''review_comments'') (PDict []) else fallback_result)" for s
    by (simp add: final_state_step5)
  have fin5: "\<exists>before rest. yielded (step5_final B name s) =
              before @ (?fin, final_state (step5_final B name s)) # rest" for s
    using yielded_step5_first [of B name s] by (metis append_Nil)
  have skip: "step4_post B W name pr st = step5_final B name st" if "\<not> ?pc"
    using that by (simp add: step4_post_def)
  have 1: "?pc \<longrightarrow> (\<exists>rest. yielded (step4_post B W name pr st) =
         ?ev # fst (post_review_comments W pr st) @ rest)"
    by (simp add: step4_post_def split_beta)
  have ret: "map_of (final_state (step4_post B W name pr st)) (lit ''final_result'') =
          Some (if truthy ?rc then ?rc else fallback_result)
        \<and> (\<exists>before rest. yielded (step4_post B W name pr st) =
              before @ (?fin, final_state (step4_post B W name pr st)) # rest)
        \<and> raised (step4_post B W name pr st) = raised (step5_final B name st)
        \<and> map_of (final_state (step4_post B W name pr st)) (lit ''post_result'') =
          (case out of None \<Rightarrow> map_of st (lit ''post_result'') | Some v \<Rightarrow> Some v)"
    if pc: "?pc" and out: "snd (?w st) = Inr out"
  proof -
    let ?st1 = "case out of None \<Rightarrow> st | Some v \<Rightarrow> dict_set st (lit ''post_result'') v"
    have eq: "step4_post B W name pr st =
        after (?ev # map (\<lambda>ev. (ev, ?st1)) (fst (?w st))) (step5_final B name ?st1)"
      using pc by (simp add: step4_post_def prc run_llm_agent_Inr [where w = ?w and st = st, OF out])
    have rc: "dict_get ?st1 (lit ''review_comments'') (PDict []) = ?rc"
      by (cases out) simp_all
    have a: "map_of (final_state (step4_post B W name pr st)) (lit ''final_result'') =
          Some (if truthy ?rc then ?rc else fallback_result)"
      by (simp add: eq after_def step5 rc)
    obtain before rest where y: "yielded (step5_final B name ?st1) =
              before @ (?fin, final_state (step5_final B name ?st1)) # rest"
      using fin5 by blast
    have "yielded (step4_post B W name pr st) =
        (?ev # map (\<lambda>ev. (ev, ?st1)) (fst (?w st)) @ before)
        @ (?fin, final_state (step4_post B W name pr st)) # rest"
      by (simp add: eq after_def y)
    then have b: "\<exists>before rest. yielded (step4_post B W name pr st) =
              before @ (?fin, final_state (step4_post B W name pr st)) # rest"
      by blast
    have c: "raised (step4_post B W name pr st) = raised (step5_final B name st)"
      by (simp add: eq after_def raised_step5_cong [OF rc])
    have d: "map_of (final_state (step4_post B W name pr st)) (lit ''post_result'') =
          (case out of None \<Rightarrow> map_of st (lit ''post_result'') | Some v \<Rightarrow> Some v)"
      by (cases out) (simp_all add: eq after_def final_state_step5)
    from a b c d show ?thesis by simp
  qed
  have 3: "\<not> ?pc \<or> snd (?w st) = Inr out \<longrightarrow>
        map_of (final_state (step4_post B W name pr st)) (lit ''final_result'') =
          Some (if truthy ?rc then ?rc else fallback_result)
        \<and> (\<exists>before rest. yielded (step4_post B W name pr st) =
              before @ (?fin, final_state (step4_post B W name pr st)) # rest)
        \<and> raised (step4_post B W name pr st) = raised (step5_final B name st)
        \<and> (is_ReviewResult ?rc \<longrightarrow> raised (step4_post B W name pr st) = None)"
  proof (cases ?pc)
    case False
    then show ?thesis
      using step5 [of st] fin5 [of st] raised_step5_dict [of st B name] by (simp add: skip)
  next
    case True
    show ?thesis
    proof
      assume "\<not> ?pc \<or> snd (?w st) = Inr out"
      with True have out: "snd (?w st) = Inr out" by simp
      from ret [OF True out] raised_step5_dict [of st B name]
      show "map_of (final_state (step4_post B W name pr st)) (lit ''final_result'') =
          Some (if truthy ?rc then ?rc else fallback_result)
        \<and> (\<exists>before rest. yielded (step4_post B W name pr st) =
              before @ (?fin, final_state (step4_post B W name pr st)) # rest)
        \<and> raised (step4_post B W name pr st) = raised (step5_final B name st)
        \<and> (is_ReviewResult ?rc \<longrightarrow> raised (step4_post B W name pr st) = None)"
        by simp
    qed
  qed
  have 4: "?pc \<and> snd (?w st) = Inr out \<longrightarrow>
        map_of (final_state (step4_post B W name pr st)) (lit ''post_result'') =
          (case out of None \<Rightarrow> map_of st (lit ''post_result'') | Some v \<Rightarrow> Some v)"
    using ret by blast
  have 5: "?pc \<and> snd (?w st) = Inl e \<longrightarrow>
        raised (step4_post B W name pr st) = Some e
        \<and> final_state (step4_post B W name pr st) = st
        \<and> yielded (step4_post B W name pr st) = ?ev # fst (post_review_comments W pr st)"
  proof
    assume a: "?pc \<and> snd (?w st) = Inl e"
    then have e: "snd (?w st) = Inl e" by simp
    from a show "raised (step4_post B W name pr st) = Some e
        \<and> final_state (step4_post B W name pr st) = st
        \<and> yielded (step4_post B W name pr st) = ?ev # fst (post_review_comments W pr st)"
      by (simp add: step4_post_def prc run_llm_agent_Inl [where w = ?w and st = st, OF e] after_def fail_def)
  qed
  from 1 skip 3 4 5 show ?thesis by blast
qed

text \<open>
  The statement at a state that holds a validated result: with a posting delegation that
  writes nothing, with posting switched off, and with a posting delegation that raises.
\<close>

theorem posting_not_checked_witness:
  "map_of (final_state (step4_post ascii_builtins idle_workers (lit ''agent'')
             \<lparr>owner = lit ''acme'', repo = lit ''widgets'', pr_number = lit ''42''\<rparr>
             (reviewed_state True))) (lit ''final_result'') = Some sample_review
   \<and> raised (step4_post ascii_builtins idle_workers (lit ''agent'')
             \<lparr>owner = lit ''acme'', repo = lit ''widgets'', pr_number = lit ''42''\<rparr>
             (reviewed_state True)) = None
   \<and> map_of (final_state (step4_post ascii_builtins idle_workers (lit ''agent'')
             \<lparr>owner = lit ''acme'', repo = lit ''widgets'', pr_number = lit ''42''\<rparr>
             (reviewed_state True))) (lit ''post_result'') = None
   \<and> step4_post ascii_builtins idle_workers (lit ''agent'')
             \<lparr>owner = lit ''acme'', repo = lit ''widgets'', pr_number = lit ''42''\<rparr>
             (reviewed_state False)
       = step5_final ascii_builtins (lit ''agent'') (reviewed_state False)
   \<and> raised (step4_post ascii_builtins failing_post_workers (lit ''agent'')
             \<lparr>owner = lit ''acme'', repo = lit ''widgets'', pr_number = lit ''42''\<rparr>
             (reviewed_state True)) = Some OSError"
proof -
  let ?pr = "\<lparr>owner = lit ''acme'', repo = lit ''widgets'', pr_number = lit ''42''\<rparr>"
  have idle: "snd (post_agent idle_workers gh_tools ?pr
                (dict_get (reviewed_state True) (lit ''review_comments'') (PDict []))
                (reviewed_state True)) = Inr None"
    by (simp add: idle_workers_def idle_def)
  have failing: "snd (post_agent failing_post_workers gh_tools ?pr
                (dict_get (reviewed_state True) (lit ''review_comments'') (PDict []))
                (reviewed_state True)) = Inl OSError"
    by (simp add: failing_post_workers_def failing_post_def)
  have pcT: "truthy (dict_get (reviewed_state True) (lit ''post_comments'') (PBool False))"
    and pcF: "\<not> truthy (dict_get (reviewed_state False) (lit ''post_comments'') (PBool False))"
    by (simp_all add: reviewed_state_gets)
  have v: "is_ReviewResult (dict_get (reviewed_state True) (lit ''review_comments'') (PDict []))"
    by (simp add: reviewed_state_gets is_ReviewResult_sample)
  note T = posting_not_checked [where st = "reviewed_state True" and B = ascii_builtins
      and W = idle_workers and name = "lit ''agent''" and pr = ?pr and out = None]
  note T3 = T [THEN conjunct2, THEN conjunct2, THEN conjunct1, THEN mp, OF disjI2, OF idle]
  note T4 = T [THEN conjunct2, THEN conjunct2, THEN conjunct2, THEN conjunct1, THEN mp,
      OF conjI, OF pcT idle]
  have 1: "map_of (final_state (step4_post ascii_builtins idle_workers (lit ''agent'') ?pr
             (reviewed_state True))) (lit ''final_result'') = Some sample_review"
    using T3 [THEN conjunct1] is_ReviewResult_truthy [OF is_ReviewResult_sample]
    by (simp add: reviewed_state_gets)
  have 2: "raised (step4_post ascii_builtins idle_workers (lit ''agent'') ?pr
             (reviewed_state True)) = None"
    using T3 [THEN conjunct2, THEN conjunct2, THEN conjunct2, THEN mp, OF v] .
  have 3: "map_of (final_state (step4_post ascii_builtins idle_workers (lit ''agent'') ?pr
             (reviewed_state True))) (lit ''post_result'') = None"
    using T4 by (simp add: reviewed_state_gets)
  have 4: "step4_post ascii_builtins idle_workers (lit ''agent'') ?pr (reviewed_state False)
       = step5_final ascii_builtins (lit ''agent'') (reviewed_state False)"
    using posting_not_checked [where st = "reviewed_state False" and B = ascii_builtins
      and W = idle_workers and name = "lit ''agent''" and pr = ?pr,
      THEN conjunct2, THEN conjunct1, THEN mp, OF pcF] .
  have 5: "raised (step4_post ascii_builtins failing_post_workers (lit ''agent'') ?pr
             (reviewed_state True)) = Some OSError"
    using posting_not_checked [where st = "reviewed_state True" and B = ascii_builtins
      and W = failing_post_workers and name = "lit ''agent''" and pr = ?pr and e = OSError,
      THEN conjunct2, THEN conjunct2, THEN conjunct2, THEN conjunct2, THEN mp,
      OF conjI, OF pcT failing, THEN conjunct1] .
  from 1 2 3 4 5 show ?thesis by simp
qed

lemma request_state_url:
  "dict_get (request_state b) (lit ''pull_request_url'') PNone
     = PStr (lit ''https://github.com/acme/widgets/pull/42'')"
  by (simp add: request_state_def dict_get_def)

lemma run_reaches_posting:
  "run_async_impl ascii_builtins failing_post_workers (lit ''code_review_agent'')
     (request_state True) =
      after
        [(Event ''assistant'' (128269 # lit '' Fetching pull request details...'')
            (lit ''code_review_agent''), request_state True),
         (Event ''assistant'' (128269 # lit '' Analyzing code changes...'')
            (lit ''code_review_agent''),
          dict_set (request_state True) (lit ''pr_details'') (PStr (lit ''details''))),
         (Event ''assistant'' (128172 # lit '' Generating review comments...'')
            (lit ''code_review_agent''),
          dict_set (dict_set (request_state True) (lit ''pr_details'') (PStr (lit ''details'')))
            (lit ''code_analysis'') (PStr (lit ''analysis'')))]
        (step4_post ascii_builtins failing_post_workers (lit ''code_review_agent'')
           \<lparr>owner = lit ''acme'', repo = lit ''widgets'', pr_number = lit ''42''\<rparr>
           (dict_set (dict_set (dict_set (dict_set (request_state True)
               (lit ''pr_details'') (PStr (lit ''details'')))
               (lit ''code_analysis'') (PStr (lit ''analysis'')))
               (lit ''raw_review_comments'') (PStr (lit ''draft'')))
               (lit ''review_comments'') sample_review))"
  by (simp add: run_async_impl_def request_state_url parse_acme step1_fetch_def
        fetch_pr_details_def step2_analyze_def analyze_code_changes_def step3_generate_def
        generate_review_comments_def structure_output_def run_llm_agent_def
        failing_post_workers_def reviewing_workers_def after_after Let_def)

text \<open>
  Claim C7 as it was stated fails for a posting delegation that fails by raising: in a run
  whose stages up to STRUCTURING all deliver, the exception of the posting delegation ends
  the run.  The review is in the state, the last event is the progress event of POSTING, and
  no final result is written.
\<close>

theorem posting_exception_counterexample:
  "raised (run_async_impl ascii_builtins failing_post_workers (lit ''code_review_agent'')
             (request_state True)) = Some OSError
   \<and> map_of (final_state (run_async_impl ascii_builtins failing_post_workers
                (lit ''code_review_agent'') (request_state True))) (lit ''review_comments'')
       = Some sample_review
   \<and> map_of (final_state (run_async_impl ascii_builtins failing_post_workers
                (lit ''code_review_agent'') (request_state True))) (lit ''final_result'')
       = None
   \<and> fst (last (yielded (run_async_impl ascii_builtins failing_post_workers
                (lit ''code_review_agent'') (request_state True))))
       = Event ''assistant'' (128221 # lit '' Posting review comments to pull request...'')
           (lit ''code_review_agent'')"
proof -
  let ?st3 = "dict_set (dict_set (dict_set (dict_set (request_state True)
               (lit ''pr_details'') (PStr (lit ''details'')))
               (lit ''code_analysis'') (PStr (lit ''analysis'')))
               (lit ''raw_review_comments'') (PStr (lit ''draft'')))
               (lit ''review_comments'') sample_review"
  let ?pr = "\<lparr>owner = lit ''acme'', repo = lit ''widgets'', pr_number = lit ''42''\<rparr>"
  have pc: "dict_get ?st3 (lit ''post_comments'') (PBool False) = PBool True"
    by (simp add: request_state_def dict_get_def)
  have pc0: "dict_get (request_state True) (lit ''post_comments'') (PBool False) = PBool True"
    by (simp add: request_state_def dict_get_def)
  have s4: "step4_post ascii_builtins failing_post_workers (lit ''code_review_agent'') ?pr ?st3
      = after [(Event ''assistant'' (128221 # lit '' Posting review comments to pull request...'')
                 (lit ''code_review_agent''), ?st3)] (fail OSError ?st3)"
    by (simp add: step4_post_def pc pc0 post_review_comments_def run_llm_agent_def
          failing_post_workers_def failing_post_def)
  have fr: "map_of ?st3 (lit ''final_result'') = None"
    by (simp add: request_state_def)
  have fr0: "map_of (request_state True) (lit ''final_result'') = None"
    by (simp add: request_state_def)
  show ?thesis
    by (simp add: run_reaches_posting s4 after_def fail_def fr fr0)
qed

section \<open>Runs that end early: results\<close>

lemma assistant_not_notice: "Event ''assistant'' t a \<notin> set (failure_notices name)"
  by (simp add: failure_notices_def no_url_event_def invalid_url_event_def Event_def)

lemma step5_last:
  assumes "raised (step5_final B name st) = None"
  shows "fst (last (yielded (step5_final B name st))) \<notin> set (failure_notices name)
         \<and> yielded (step5_final B name st) \<noteq> []"
proof -
  define v where "v = (if truthy (dict_get st (lit ''review_comments'') (PDict []))
            then dict_get st (lit ''review_comments'') (PDict []) else fallback_result)"
  have g: "generate_final_result name st =
      ([(Event ''system'' (lit ''Final result generated'') name,
         dict_set st (lit ''final_result'') v)], dict_set st (lit ''final_result'') v)"
    by (simp add: generate_final_result_eq v_def)
  from assms show ?thesis
    unfolding step5_final_def g
    by (cases v) (simp_all add: halt_def Let_def assistant_not_notice)
qed

lemma step4_last:
  assumes "raised (step4_post B W name pr st) = None"
  shows "fst (last (yielded (step4_post B W name pr st))) \<notin> set (failure_notices name)
         \<and> yielded (step4_post B W name pr st) \<noteq> []"
proof (cases "truthy (dict_get st (lit ''post_comments'') (PBool False))")
  case False
  then have "step4_post B W name pr st = step5_final B name st"
    by (simp add: step4_post_def)
  with assms step5_last show ?thesis by simp
next
  case True
  obtain evs st1 err where p: "post_review_comments W pr st = (evs, st1, err)"
    by (cases "post_review_comments W pr st") auto
  show ?thesis
  proof (cases err)
    case (Some e)
    with True p assms show ?thesis by (simp add: step4_post_def fail_def)
  next
    case None
    with True p have s: "step4_post B W name pr st =
        after ((Event ''assistant''
                  (128221 # lit '' Posting review comments to pull request...'') name, st) # evs)
          (step5_final B name st1)"
      by (simp add: step4_post_def)
    from assms have "raised (step5_final B name st1) = None" by (simp add: s)
    from step5_last [OF this] show ?thesis by (simp add: s)
  qed
qed

lemma fetch_keeps:
  "fetch_pr_details W pr st = (evs, st1, err) \<Longrightarrow>
   map_of st1 (lit ''final_result'') = map_of st (lit ''final_result'')"
  using run_llm_agent_other_key [where k = "lit ''final_result''" and key = "''pr_details''"
      and w = "fetch_agent W gh_tools pr" and st = st]
  by (simp add: fetch_pr_details_def)

lemma analyze_keeps:
  "analyze_code_changes W c t st = (evs, st1, err) \<Longrightarrow>
   map_of st1 (lit ''final_result'') = map_of st (lit ''final_result'')"
  using run_llm_agent_other_key [where k = "lit ''final_result''" and key = "''code_analysis''"
      and w = "analyze_agent W (dict_get st (lit ''pr_details'') (PStr [])) c t" and st = st]
  by (simp add: analyze_code_changes_def Let_def)

lemma generate_keeps:
  assumes "generate_review_comments W st = (evs, st1, err)"
  shows "map_of st1 (lit ''final_result'') = map_of st (lit ''final_result'')"
proof -
  let ?w = "comment_agent W (dict_get st (lit ''code_analysis'') (PStr []))"
  obtain evs1 s1 err1 where a: "run_llm_agent ?w ''raw_review_comments'' st = (evs1, s1, err1)"
    by (cases "run_llm_agent ?w ''raw_review_comments'' st") auto
  have k1: "map_of s1 (lit ''final_result'') = map_of st (lit ''final_result'')"
    using run_llm_agent_other_key [where k = "lit ''final_result''"
        and key = "''raw_review_comments''" and w = ?w and st = st]
    by (simp add: a)
  let ?w2 = "get_structured_output W (lit ''raw_review_comments'')"
  obtain evs2 s2 err2 where b: "run_llm_agent ?w2 ''review_comments'' s1 = (evs2, s2, err2)"
    by (cases "run_llm_agent ?w2 ''review_comments'' s1") auto
  have k2: "map_of s2 (lit ''final_result'') = map_of s1 (lit ''final_result'')"
    using run_llm_agent_other_key [where k = "lit ''final_result''"
        and key = "''review_comments''" and w = ?w2 and st = s1]
    by (simp add: b)
  from assms a b have "st1 = s1 \<or> st1 = s2"
    by (cases err1) (auto simp: generate_review_comments_def Let_def structure_output_def
          split: if_splits)
  with k1 k2 show ?thesis by auto
qed

lemma step3_notice:
  assumes "raised (step3_generate B W name pr st) = None"
    and "fst (last (yielded (step3_generate B W name pr st))) \<in> set (failure_notices name)"
  shows "map_of (final_state (step3_generate B W name pr st)) (lit ''final_result'')
         = map_of st (lit ''final_result'')"
proof -
  obtain evs st1 err where p: "generate_review_comments W st = (evs, st1, err)"
    by (cases "generate_review_comments W st") auto
  note k = generate_keeps [OF p]
  show ?thesis
  proof (cases err)
    case (Some e)
    with p assms(1) show ?thesis by (simp add: step3_generate_def fail_def)
  next
    case None
    show ?thesis
    proof (cases "dict_has st1 (lit ''review_comments'')")
      case False
      with None p k show ?thesis by (simp add: step3_generate_def halt_def)
    next
      case True
      with None p have s: "step3_generate B W name pr st =
          after ((Event ''assistant'' (128172 # lit '' Generating review comments...'') name, st)
                 # evs) (step4_post B W name pr st1)"
        by (simp add: step3_generate_def)
      from assms(1) have "raised (step4_post B W name pr st1) = None" by (simp add: s)
      from step4_last [OF this] assms(2) show ?thesis by (simp add: s)
    qed
  qed
qed

lemma step2_notice:
  assumes "raised (step2_analyze B W name pr c t st) = None"
    and "fst (last (yielded (step2_analyze B W name pr c t st))) \<in> set (failure_notices name)"
  shows "map_of (final_state (step2_analyze B W name pr c t st)) (lit ''final_result'')
         = map_of st (lit ''final_result'')"
proof -
  obtain evs st1 err where p: "analyze_code_changes W c t st = (evs, st1, err)"
    by (cases "analyze_code_changes W c t st") auto
  note k = analyze_keeps [OF p]
  show ?thesis
  proof (cases err)
    case (Some e)
    with p assms(1) show ?thesis by (simp add: step2_analyze_def fail_def)
  next
    case None
    show ?thesis
    proof (cases "dict_has st1 (lit ''code_analysis'')")
      case False
      with None p k show ?thesis by (simp add: step2_analyze_def halt_def)
    next
      case True
      with None p have s: "step2_analyze B W name pr c t st =
          after ((Event ''assistant'' (128269 # lit '' Analyzing code changes...'') name, st)
                 # evs) (step3_generate B W name pr st1)"
        by (simp add: step2_analyze_def)
      have ne: "yielded (step3_generate B W name pr st1) \<noteq> []"
        by (cases "generate_review_comments W st1") (simp add: step3_generate_def)
      from assms(1) have r: "raised (step3_generate B W name pr st1) = None" by (simp add: s)
      from assms(2) ne
      have "fst (last (yielded (step3_generate B W name pr st1))) \<in> set (failure_notices name)"
        by (simp add: s)
      from step3_notice [OF r this] k show ?thesis by (simp add: s)
    qed
  qed
qed

lemma step1_notice:
  assumes "raised (step1_fetch B W name pr c t st) = None"
    and "fst (last (yielded (step1_fetch B W name pr c t st))) \<in> set (failure_notices name)"
  shows "map_of (final_state (step1_fetch B W name pr c t st)) (lit ''final_result'')
         = map_of st (lit ''final_result'')"
proof -
  obtain evs st1 err where p: "fetch_pr_details W pr st = (evs, st1, err)"
    by (cases "fetch_pr_details W pr st") auto
  note k = fetch_keeps [OF p]
  show ?thesis
  proof (cases err)
    case (Some e)
    with p assms(1) show ?thesis by (simp add: step1_fetch_def fail_def)
  next
    case None
    show ?thesis
    proof (cases "dict_has st1 (lit ''pr_details'')")
      case False
      with None p k show ?thesis by (simp add: step1_fetch_def halt_def)
    next
      case True
      with None p have s: "step1_fetch B W name pr c t st =
          after ((Event ''assistant'' (128269 # lit '' Fetching pull request details...'') name, st)
                 # evs) (step2_analyze B W name pr c t st1)"
        by (simp add: step1_fetch_def)
      have ne: "yielded (step2_analyze B W name pr c t st1) \<noteq> []"
        by (cases "analyze_code_changes W c t st1") (simp add: step2_analyze_def)
      from assms(1) have r: "raised (step2_analyze B W name pr c t st1) = None" by (simp add: s)
      from assms(2) ne
      have "fst (last (yielded (step2_analyze B W name pr c t st1))) \<in> set (failure_notices name)"
        by (simp add: s)
      from step2_notice [OF r this] k show ?thesis by (simp add: s)
    qed
  qed
qed

lemma run_notice:
  assumes "raised (run_async_impl B W name st) = None"
    and "fst (last (yielded (run_async_impl B W name st))) \<in> set (failure_notices name)"
  shows "map_of (final_state (run_async_impl B W name st)) (lit ''final_result'')
         = map_of st (lit ''final_result'')"
proof (cases "truthy (dict_get st (lit ''pull_request_url'') PNone)")
  case False
  then show ?thesis by (simp add: run_async_impl_def halt_def)
next
  case True
  show ?thesis
  proof (cases "dict_get st (lit ''pull_request_url'') PNone")
    case (PStr url)
    show ?thesis
    proof (cases "parse_pr_url B url")
      case None
      with True PStr show ?thesis by (simp add: run_async_impl_def halt_def)
    next
      case (Some pr)
      with True PStr have s: "run_async_impl B W name st =
          step1_fetch B W name pr (dict_get st (lit ''review_criteria'') (PDict []))
            (dict_get st (lit ''severity_threshold'') (PStr (lit ''low''))) st"
        by (simp add: run_async_impl_def)
      from assms show ?thesis unfolding s by (rule step1_notice)
    qed
  qed (use True assms(1) in \<open>simp_all add: run_async_impl_def fail_def\<close>)
qed

lemma fetch_halt_run:
  assumes u: "dict_get st (lit ''pull_request_url'') PNone = PStr url" and ne: "url \<noteq> []"
    and p: "parse_pr_url B url = Some pr"
    and w: "snd (fetch_agent W gh_tools pr st) = Inr None"
    and d: "\<not> dict_has st (lit ''pr_details'')"
  shows "run_async_impl B W name st =
     halt ((Event ''assistant'' (128269 # lit '' Fetching pull request details...'') name, st)
           # map (\<lambda>ev. (ev, st)) (fst (fetch_agent W gh_tools pr st))
           @ [(Event ''system'' (lit ''Failed to fetch pull request details.'') name, st)]) st"
proof -
  have f: "fetch_pr_details W pr st = (map (\<lambda>ev. (ev, st)) (fst (fetch_agent W gh_tools pr st)), st, None)"
    using run_llm_agent_Inr [where w = "fetch_agent W gh_tools pr" and st = st, OF w]
    by (simp add: fetch_pr_details_def)
  show ?thesis
    using u ne p d by (simp add: run_async_impl_def step1_fetch_def f after_def halt_def)
qed

lemma get_session_positional: "get_session 1 [] s = Inl TypeError"
  by (simp add: get_session_def)

lemma run_first_event:
  "(\<exists>e s rest. yielded (run_async_impl B W name st) = (e, s) # rest \<and> content e \<noteq> None)
   \<or> (yielded (run_async_impl B W name st) = [] \<and> raised (run_async_impl B W name st) = Some TypeError)"
proof (cases "truthy (dict_get st (lit ''pull_request_url'') PNone)")
  case False
  then show ?thesis by (simp add: run_async_impl_def halt_def no_url_event_def Event_def)
next
  case True
  show ?thesis
  proof (cases "dict_get st (lit ''pull_request_url'') PNone")
    case (PStr url)
    show ?thesis
    proof (cases "parse_pr_url B url")
      case None
      with True PStr show ?thesis by (simp add: run_async_impl_def halt_def invalid_url_event_def Event_def)
    next
      case (Some pr)
      with True PStr show ?thesis
        by (cases "fetch_pr_details W pr st")
           (simp add: run_async_impl_def step1_fetch_def Event_def)
    qed
  qed (use True in \<open>simp_all add: run_async_impl_def fail_def\<close>)
qed

lemma run_code_review_agent_raises: "run_code_review_agent B W st = Inl TypeError"
  using run_first_event [of B W "lit ''code_review_agent''" st]
  by (auto simp: run_code_review_agent_def Let_def get_session_def)

lemma agent_endpoint_run:
  assumes "dict_has d (lit ''pull_request_url'')" and "request_session_state d = Inr st"
  shows "agent_endpoint B W (PDict d) =
     (500, PDict [(lit ''success'', PBool False), (lit ''error'', PStr (exc_text B TypeError))])"
proof -
  from assms(1) have "d \<noteq> []" by (auto simp: dict_has_def)
  then have t: "truthy (PDict d)" by simp
  show ?thesis
    using t assms
    by (simp add: agent_endpoint_def agent_endpoint_try_def contains_def
          run_code_review_agent_raises)
qed

lemma request_session_state_keys:
  "request_session_state d = Inr st \<Longrightarrow> \<not> dict_has st (lit ''final_result'')"
  by (auto simp: request_session_state_def Let_def dict_has_def split: sum.splits)

lemma request_state_built:
  "request_session_state
      [(lit ''pull_request_url'', PStr (lit ''https://github.com/acme/widgets/pull/42''))]
     = Inr (request_state False)"
  by (simp add: request_session_state_def validate_review_criteria_def
        validate_severity_threshold_def valid_thresholds_def dict_get_def request_state_def
        Let_def)

lemma idle_fetch:
  "snd (fetch_agent idle_workers gh_tools pr st) = Inr None"
  "fst (fetch_agent idle_workers gh_tools pr st) = []"
  by (simp_all add: idle_workers_def idle_def)

lemma request_state_no_details:
  "\<not> dict_has (request_state b) (lit ''pr_details'')"
  "\<not> dict_has (request_state b) (lit ''final_result'')"
  "map_of (request_state b) (lit ''final_result'') = None"
  by (simp_all add: request_state_def dict_has_def default_criteria_def)

text \<open>
  Claim C1, as amended.  A run that ends early, with one of the five failure notices as its
  last event and without an exception, leaves \<open>final_result\<close> as it found it: the
  fallback is written by FINALIZING only, which such a run does not reach.  A run whose
  fetch delegation returns without an output, from a state without \<open>pr_details\<close>, is
  such a run: it ends normally with the notice \<open>Failed to fetch pull request details.\<close>
  and the state unchanged.  For a request served by the handler the state of such a run
  holds no \<open>final_result\<close>, and the payload returned to the caller is not the fallback:
  it carries \<open>success\<close> false.  So does the dict that \<open>run_code_review_agent\<close>
  substitutes for a missing result.
\<close>

theorem total_failure_no_fallback:
  "(raised (run_async_impl B W name st) = None
      \<and> fst (last (yielded (run_async_impl B W name st))) \<in> set (failure_notices name) \<longrightarrow>
      map_of (final_state (run_async_impl B W name st)) (lit ''final_result'')
        = map_of st (lit ''final_result''))
   \<and> (dict_get st (lit ''pull_request_url'') PNone = PStr url \<and> url \<noteq> []
        \<and> parse_pr_url B url = Some pr
        \<and> snd (fetch_agent W gh_tools pr st) = Inr None
        \<and> \<not> dict_has st (lit ''pr_details'') \<longrightarrow>
      raised (run_async_impl B W name st) = None
      \<and> final_state (run_async_impl B W name st) = st
      \<and> fst (last (yielded (run_async_impl B W name st)))
          = Event ''system'' (lit ''Failed to fetch pull request details.'') name
      \<and> fst (last (yielded (run_async_impl B W name st))) \<in> set (failure_notices name))
   \<and> (dict_has d (lit ''pull_request_url'') \<and> request_session_state d = Inr st'
        \<and> raised (run_async_impl B W (lit ''code_review_agent'') st') = None
        \<and> fst (last (yielded (run_async_impl B W (lit ''code_review_agent'') st')))
            \<in> set (failure_notices (lit ''code_review_agent'')) \<longrightarrow>
      \<not> dict_has (final_state (run_async_impl B W (lit ''code_review_agent'') st'))
           (lit ''final_result'')
      \<and> snd (agent_endpoint B W (PDict d)) \<noteq> fallback_result
      \<and> (\<exists>p. snd (agent_endpoint B W (PDict d)) = PDict p
              \<and> dict_get p (lit ''success'') PNone = PBool False))
   \<and> no_result \<noteq> fallback_result
   \<and> (\<exists>p. no_result = PDict p \<and> dict_get p (lit ''success'') PNone = PBool False)"
proof (intro conjI impI)
  assume "raised (run_async_impl B W name st) = None
      \<and> fst (last (yielded (run_async_impl B W name st))) \<in> set (failure_notices name)"
  then show "map_of (final_state (run_async_impl B W name st)) (lit ''final_result'')
        = map_of st (lit ''final_result'')"
    using run_notice by blast
next
  assume a: "dict_get st (lit ''pull_request_url'') PNone = PStr url \<and> url \<noteq> []
        \<and> parse_pr_url B url = Some pr
        \<and> snd (fetch_agent W gh_tools pr st) = Inr None
        \<and> \<not> dict_has st (lit ''pr_details'')"
  then have r: "run_async_impl B W name st =
     halt ((Event ''assistant'' (128269 # lit '' Fetching pull request details...'') name, st)
           # map (\<lambda>ev. (ev, st)) (fst (fetch_agent W gh_tools pr st))
           @ [(Event ''system'' (lit ''Failed to fetch pull request details.'') name, st)]) st"
    using fetch_halt_run by blast
  show "raised (run_async_impl B W name st) = None" by (simp add: r halt_def)
  show "final_state (run_async_impl B W name st) = st" by (simp add: r halt_def)
  show "fst (last (yielded (run_async_impl B W name st)))
          = Event ''system'' (lit ''Failed to fetch pull request details.'') name"
    by (simp add: r halt_def)
  show "fst (last (yielded (run_async_impl B W name st))) \<in> set (failure_notices name)"
    by (simp add: r halt_def failure_notices_def)
next
  assume a: "dict_has d (lit ''pull_request_url'') \<and> request_session_state d = Inr st'
        \<and> raised (run_async_impl B W (lit ''code_review_agent'') st') = None
        \<and> fst (last (yielded (run_async_impl B W (lit ''code_review_agent'') st')))
            \<in> set (failure_notices (lit ''code_review_agent''))"
  then have k: "\<not> dict_has st' (lit ''final_result'')"
    using request_session_state_keys by blast
  from a have "map_of (final_state (run_async_impl B W (lit ''code_review_agent'') st'))
      (lit ''final_result'') = map_of st' (lit ''final_result'')"
    using run_notice by blast
  with k show "\<not> dict_has (final_state (run_async_impl B W (lit ''code_review_agent'') st'))
           (lit ''final_result'')"
    by (simp add: dict_has_def)
  from a have e: "agent_endpoint B W (PDict d) =
     (500, PDict [(lit ''success'', PBool False), (lit ''error'', PStr (exc_text B TypeError))])"
    using agent_endpoint_run by blast
  show "snd (agent_endpoint B W (PDict d)) \<noteq> fallback_result"
    by (simp add: e fallback_result_def)
  show "\<exists>p. snd (agent_endpoint B W (PDict d)) = PDict p
              \<and> dict_get p (lit ''success'') PNone = PBool False"
    by (simp add: e dict_get_def)
next
  show "no_result \<noteq> fallback_result" by (simp add: no_result_def fallback_result_def)
  show "\<exists>p. no_result = PDict p \<and> dict_get p (lit ''success'') PNone = PBool False"
    by (simp add: no_result_def dict_get_def)
qed

text \<open>
  The statement at a request for \<open>https://github.com/acme/widgets/pull/42\<close> served
  with workers that deliver nothing.
\<close>

theorem total_failure_no_fallback_witness:
  "raised (run_async_impl ascii_builtins idle_workers (lit ''code_review_agent'')
             (request_state False)) = None
   \<and> fst (last (yielded (run_async_impl ascii_builtins idle_workers (lit ''code_review_agent'')
             (request_state False))))
       = Event ''system'' (lit ''Failed to fetch pull request details.'')
           (lit ''code_review_agent'')
   \<and> map_of (final_state (run_async_impl ascii_builtins idle_workers
                (lit ''code_review_agent'') (request_state False))) (lit ''final_result'')
       = None
   \<and> \<not> dict_has (final_state (run_async_impl ascii_builtins idle_workers
                (lit ''code_review_agent'') (request_state False))) (lit ''final_result'')
   \<and> snd (agent_endpoint ascii_builtins idle_workers
            (PDict [(lit ''pull_request_url'',
                     PStr (lit ''https://github.com/acme/widgets/pull/42''))]))
       \<noteq> fallback_result"
proof -
  let ?pr = "\<lparr>owner = lit ''acme'', repo = lit ''widgets'', pr_number = lit ''42''\<rparr>"
  let ?d = "[(lit ''pull_request_url'', PStr (lit ''https://github.com/acme/widgets/pull/42''))]"
  let ?r = "run_async_impl ascii_builtins idle_workers (lit ''code_review_agent'')
              (request_state False)"
  note T = total_failure_no_fallback [where B = ascii_builtins and W = idle_workers
      and name = "lit ''code_review_agent''" and st = "request_state False"
      and url = "lit ''https://github.com/acme/widgets/pull/42''" and pr = ?pr
      and d = ?d and st' = "request_state False"]
  have h2: "dict_get (request_state False) (lit ''pull_request_url'') PNone
              = PStr (lit ''https://github.com/acme/widgets/pull/42'')
        \<and> lit ''https://github.com/acme/widgets/pull/42'' \<noteq> []
        \<and> parse_pr_url ascii_builtins (lit ''https://github.com/acme/widgets/pull/42'') = Some ?pr
        \<and> snd (fetch_agent idle_workers gh_tools ?pr (request_state False)) = Inr None
        \<and> \<not> dict_has (request_state False) (lit ''pr_details'')"
    by (simp add: request_state_url parse_acme idle_fetch request_state_no_details)
  note T2 = T [THEN conjunct2, THEN conjunct1, THEN mp, OF h2]
  have a: "raised ?r = None" using T2 [THEN conjunct1] .
  have b: "fst (last (yielded ?r))
       = Event ''system'' (lit ''Failed to fetch pull request details.'')
           (lit ''code_review_agent'')"
    using T2 [THEN conjunct2, THEN conjunct2, THEN conjunct1] .
  have n: "fst (last (yielded ?r)) \<in> set (failure_notices (lit ''code_review_agent''))"
    using T2 [THEN conjunct2, THEN conjunct2, THEN conjunct2] .
  have c: "map_of (final_state ?r) (lit ''final_result'') = None"
    using T [THEN conjunct1, THEN mp, OF conjI, OF a n]
    by (simp add: request_state_no_details)
  have dh: "dict_has ?d (lit ''pull_request_url'')" by (simp add: dict_has_def)
  have h3: "dict_has ?d (lit ''pull_request_url'')
      \<and> request_session_state ?d = Inr (request_state False)
      \<and> raised ?r = None
      \<and> fst (last (yielded ?r)) \<in> set (failure_notices (lit ''code_review_agent''))"
    using dh request_state_built a n by simp
  note T3 = T [THEN conjunct2, THEN conjunct2, THEN conjunct1, THEN mp, OF h3]
  have d: "\<not> dict_has (final_state ?r) (lit ''final_result'')" using T3 [THEN conjunct1] .
  have e: "snd (agent_endpoint ascii_builtins idle_workers (PDict ?d)) \<noteq> fallback_result"
    using T3 [THEN conjunct2, THEN conjunct1] .
  from a b c d e show ?thesis by (simp only: simp_thms)
qed

text \<open>
  Claim C1 as it was stated fails: for that request the run halts after FETCHING, the state
  holds no final result, and the handler replies with status 500 and a payload whose
  \<open>success\<close> is false, not with the fallback.  (The reply is the handler's answer to the
  \<open>TypeError\<close> of the positional call \<open>get_session(session.id)\<close>.)
\<close>

theorem total_failure_counterexample:
  "run_async_impl ascii_builtins idle_workers (lit ''code_review_agent'') (request_state False)
     = halt [(Event ''assistant'' (128269 # lit '' Fetching pull request details...'')
                (lit ''code_review_agent''), request_state False),
             (Event ''system'' (lit ''Failed to fetch pull request details.'')
                (lit ''code_review_agent''), request_state False)]
         (request_state False)
   \<and> map_of (request_state False) (lit ''final_result'') = None
   \<and> request_session_state
        [(lit ''pull_request_url'', PStr (lit ''https://github.com/acme/widgets/pull/42''))]
       = Inr (request_state False)
   \<and> agent_endpoint ascii_builtins idle_workers
        (PDict [(lit ''pull_request_url'',
                 PStr (lit ''https://github.com/acme/widgets/pull/42''))])
       = (500, PDict [(lit ''success'', PBool False),
                      (lit ''error'', PStr (exc_text ascii_builtins TypeError))])
   \<and> PDict [(lit ''success'', PBool False),
             (lit ''error'', PStr (exc_text ascii_builtins TypeError))] \<noteq> fallback_result"
proof -
  let ?pr = "\<lparr>owner = lit ''acme'', repo = lit ''widgets'', pr_number = lit ''42''\<rparr>"
  let ?d = "[(lit ''pull_request_url'', PStr (lit ''https://github.com/acme/widgets/pull/42''))]"
  have 1: "run_async_impl ascii_builtins idle_workers (lit ''code_review_agent'')
             (request_state False)
     = halt [(Event ''assistant'' (128269 # lit '' Fetching pull request details...'')
                (lit ''code_review_agent''), request_state False),
             (Event ''system'' (lit ''Failed to fetch pull request details.'')
                (lit ''code_review_agent''), request_state False)]
         (request_state False)"
    using fetch_halt_run [where st = "request_state False" and B = ascii_builtins
        and W = idle_workers and pr = ?pr and name = "lit ''code_review_agent''"
        and url = "lit ''https://github.com/acme/widgets/pull/42''"]
    by (simp add: request_state_url parse_acme idle_fetch request_state_no_details)
  have dh: "dict_has ?d (lit ''pull_request_url'')" by (simp add: dict_has_def)
  note 4 = agent_endpoint_run [where B = ascii_builtins and W = idle_workers,
      OF dh request_state_built]
  have 5: "PDict [(lit ''success'', PBool False),
             (lit ''error'', PStr (exc_text ascii_builtins TypeError))] \<noteq> fallback_result"
    by (simp add: fallback_result_def)
  from 1 request_state_no_details(3) [of False] request_state_built 4 5
  show ?thesis by (simp only: simp_thms)
qed

end
